theory Spec2Isabelle
  imports Complex_Main "HOL-Library.Log_Nat"
begin

section \<open>Data model\<close>

text \<open>
  The overview waveform view of \<^verbatim>\<open>src/main/views/waveform.overview.js\<close>.
  A finite JavaScript number is modelled by the real it denotes; pixel sizes read from
  the DOM (\<^verbatim>\<open>clientWidth\<close>, \<^verbatim>\<open>clientHeight\<close>) are natural numbers. The two
  coordinate conversions come twice: with exact arithmetic, where only the formula and
  the order of effects matter, and with every multiplication and division rounded to
  binary64, where the size of the rounding error matters.
\<close>

text \<open>\<^verbatim>\<open>data.adapter.sample_rate\<close> and \<^verbatim>\<open>data.adapter.scale\<close>.\<close>

record waveform_data_adapter =
  sample_rate :: real
  scale :: real

record waveform_data =
  adapter :: waveform_data_adapter

text \<open>
  \<^verbatim>\<open>waveformData.resample(width)\<close> belongs to the external waveform-data library.
  It is a parameter of every operation that can reach it.
\<close>

type_synonym resample_fn = "waveform_data \<Rightarrow> nat \<Rightarrow> waveform_data"

record html_element =
  clientWidth :: nat
  clientHeight :: nat

record peaks_options =
  overviewWaveformColor :: string
  overviewHighlightRectangleColor :: string
  options_height :: int

record konva_stage =
  stage_width :: nat
  stage_height :: int

text \<open>
  The attributes of the \<^verbatim>\<open>Konva.Rect\<close> built by \<^verbatim>\<open>_createHighlightRect\<close>.
  The attribute \<^verbatim>\<open>x\<close> is absent until the first \<^verbatim>\<open>setAttrs\<close>.
\<close>

record konva_rect =
  rect_startOffset :: int
  rect_x :: "int option"
  rect_y :: int
  rect_width :: int
  rect_stroke :: string
  rect_strokeWidth :: int
  rect_height :: int
  rect_fill :: string
  rect_opacity :: real
  rect_cornerRadius :: int

datatype layer = WaveformLayer | SegmentsLayer | PointsLayer | HighlightLayer | PlayheadLayer

text \<open>Calls into the external collaborators, in the order they are made.\<close>

datatype call =
    WaveformData_resample nat
  | Stage_new nat int
  | Stage_setWidth nat
  | Stage_add layer
  | Stage_destroy
  | Layer_addToStage layer
  | WaveformLayer_draw
  | HighlightLayer_add
  | HighlightLayer_draw
  | Playhead_new real
  | Playhead_updatePlayheadTime real
  | Playhead_stop real
  | Player_getCurrentTime
  | Player_seek real
  | Points_updatePoints real real
  | Segments_updateSegments real real

text \<open>
  The fields of \<^verbatim>\<open>self\<close> (leading underscores dropped), followed by the part of the
  host the view talks to: the player's current time, the clock in milliseconds, the
  table of pending timeouts (id and deadline) whose callback is the resample callback,
  the last timer id handed out, and the trace of collaborator calls.
  \<^verbatim>\<open>_highlightRectStartTime\<close> and \<^verbatim>\<open>_highlightRectEndTime\<close> are undefined in
  JavaScript until \<^verbatim>\<open>_createHighlightRect\<close> writes them; they are read only when
  \<^verbatim>\<open>_highlightRect\<close> is set, which the same function does after writing them.
\<close>

record overview =
  originalWaveformData :: waveform_data
  container :: html_element
  options :: peaks_options
  width :: nat
  height :: int
  data :: waveform_data
  resizeTimeoutId :: "nat option"
  stage :: "konva_stage option"
  highlightRect :: "konva_rect option"
  highlightRectStartTime :: real
  highlightRectEndTime :: real
  player_currentTime :: real
  clock :: nat
  timers :: "(nat \<times> nat) list"
  last_timer_id :: nat
  calls :: "call list"

datatype js_error = TypeError

text \<open>
  A handler either returns or throws; a throw keeps the fields written before it.
\<close>

datatype outcome = Done overview | Thrown js_error overview

fun state_of :: "outcome \<Rightarrow> overview" where
  "state_of (Done s) = s"
| "state_of (Thrown e s) = s"

fun throws :: "outcome \<Rightarrow> bool" where
  "throws (Done s) = False"
| "throws (Thrown e s) = True"

fun and_then :: "outcome \<Rightarrow> (overview \<Rightarrow> outcome) \<Rightarrow> outcome" where
  "and_then (Done s) f = f s"
| "and_then (Thrown e s) f = Thrown e s"

definition call :: "call \<Rightarrow> overview \<Rightarrow> overview" where
  "call c s = s\<lparr>calls := calls s @ [c]\<rparr>"

section \<open>Coordinate mapping\<close>

text \<open>
  The two conversions with exact arithmetic: the formulas of lines 166 and 177, read
  from the dataset that is current at the call. The versions that round as JavaScript
  does follow in the next section.
\<close>

definition timeToPixels :: "overview \<Rightarrow> real \<Rightarrow> int" where
  "timeToPixels s time =
     \<lfloor>time * sample_rate (adapter (data s)) / scale (adapter (data s))\<rfloor>"

definition pixelsToTime :: "overview \<Rightarrow> real \<Rightarrow> real" where
  "pixelsToTime s pixels =
     pixels * scale (adapter (data s)) / sample_rate (adapter (data s))"

definition getFrameOffset :: "overview \<Rightarrow> nat" where
  "getFrameOffset s = 0"

definition getWidth :: "overview \<Rightarrow> nat" where
  "getWidth s = width s"

definition getHeight :: "overview \<Rightarrow> int" where
  "getHeight s = height s"

definition getWaveformData :: "overview \<Rightarrow> waveform_data" where
  "getWaveformData s = data s"

section \<open>Coordinate mapping in binary64\<close>

text \<open>
  JavaScript evaluates \<^verbatim>\<open>*\<close> and \<^verbatim>\<open>/\<close> in IEEE 754 binary64, rounding the exact
  result to the nearest double, ties to the even significand. A finite double is the
  real it denotes (the two zeros are not told apart); \<open>None\<close> is a result that is
  not finite: an infinity or NaN.
\<close>

text \<open>The nearest integer, ties to even.\<close>

definition round_half_even :: "real \<Rightarrow> int" where
  "round_half_even y =
     (let n = \<lfloor>y\<rfloor>; f = y - of_int n
      in if f < 1 / 2 then n else if 1 / 2 < f then n + 1 else if even n then n else n + 1)"

text \<open>
  The binade of a nonzero real: the \<open>e\<close> with \<open>2 ^ e \<le> |x| < 2 ^ (e + 1)\<close>, read
  off the bit length of the integer part, or of the reciprocal for magnitudes below
  one.
\<close>

definition binade :: "real \<Rightarrow> int" where
  "binade x =
     (if 1 \<le> \<bar>x\<bar> then bitlen \<lfloor>\<bar>x\<bar>\<rfloor> - 1 else - bitlen (\<lceil>1 / \<bar>x\<bar>\<rceil> - 1))"

text \<open>
  Rounding to binary64: 53 significant bits, the exponent not below -1022 (so that
  subnormal results are multiples of \<open>2 ^ (-1074)\<close>), overflow to infinity when the
  rounded magnitude reaches \<open>2 ^ 1024\<close>.
\<close>

definition round_double :: "real \<Rightarrow> real option" where
  "round_double x =
     (if x = 0 then Some 0
      else let e = max (binade x) (- 1022);
               q = 2 powi (e - 52);
               r = of_int (round_half_even (x / q)) * q
           in if 2 powi 1024 \<le> \<bar>r\<bar> then None else Some r)"

text \<open>
  Product and quotient of two finite doubles. Dividing by zero gives an infinity or
  NaN.
\<close>

definition double_mul :: "real \<Rightarrow> real \<Rightarrow> real option" where
  "double_mul a b = round_double (a * b)"

definition double_div :: "real \<Rightarrow> real \<Rightarrow> real option" where
  "double_div a b = (if b = 0 then None else round_double (a / b))"

text \<open>
  Lines 176-178 and 165-167 as JavaScript evaluates them, left to right:
  \<^verbatim>\<open>(pixels * scale) / sample_rate\<close> and \<^verbatim>\<open>Math.floor((time * sample_rate) / scale)\<close>.
  A result that is not finite stays so through the later operation and
  \<^verbatim>\<open>Math.floor\<close>, since the dataset's fields are finite.
\<close>

definition pixelsToTime_double :: "overview \<Rightarrow> real \<Rightarrow> real option" where
  "pixelsToTime_double s pixels =
     Option.bind (double_mul pixels (scale (adapter (data s))))
       (\<lambda>x. double_div x (sample_rate (adapter (data s))))"

definition timeToPixels_double :: "overview \<Rightarrow> real \<Rightarrow> int option" where
  "timeToPixels_double s time =
     Option.bind (double_mul time (sample_rate (adapter (data s))))
       (\<lambda>x. Option.bind (double_div x (scale (adapter (data s)))) (\<lambda>y. Some \<lfloor>y\<rfloor>))"

section \<open>Host timers\<close>

text \<open>
  The browser's \<^verbatim>\<open>setTimeout\<close> and \<^verbatim>\<open>clearTimeout\<close>. Timer ids are positive, so a
  returned id is truthy. \<^verbatim>\<open>clearTimeout\<close> of an id that is not pending does nothing.
\<close>

definition setTimeout :: "nat \<Rightarrow> overview \<Rightarrow> nat \<times> overview" where
  "setTimeout delay s =
     (let i = Suc (last_timer_id s)
      in (i, s\<lparr>timers := timers s @ [(i, clock s + delay)], last_timer_id := i\<rparr>))"

definition clearTimeout :: "nat \<Rightarrow> overview \<Rightarrow> overview" where
  "clearTimeout i s = s\<lparr>timers := filter (\<lambda>(j, d). j \<noteq> i) (timers s)\<rparr>"

text \<open>
  The guard shared by the resize handler and \<^verbatim>\<open>destroy\<close>:
  \<^verbatim>\<open>if (self._resizeTimeoutId) { clearTimeout(self._resizeTimeoutId); self._resizeTimeoutId = null; }\<close>.
  \<^verbatim>\<open>null\<close> and \<^verbatim>\<open>0\<close> are falsy.
\<close>

definition clearResizeTimeout :: "overview \<Rightarrow> overview" where
  "clearResizeTimeout s =
     (case resizeTimeoutId s of
        None \<Rightarrow> s
      | Some i \<Rightarrow> if i \<noteq> 0 then (clearTimeout i s)\<lparr>resizeTimeoutId := None\<rparr> else s)"

section \<open>Highlight region\<close>

definition createHighlightRect :: "overview \<Rightarrow> real \<Rightarrow> real \<Rightarrow> overview" where
  "createHighlightRect s startTime endTime =
     (let s1 = s\<lparr>highlightRectStartTime := startTime, highlightRectEndTime := endTime\<rparr>;
          startOffset = timeToPixels s1 startTime;
          endOffset = timeToPixels s1 endTime;
          rect = \<lparr>rect_startOffset = 0,
                  rect_x = None,
                  rect_y = 11,
                  rect_width = endOffset - startOffset,
                  rect_stroke = overviewHighlightRectangleColor (options s1),
                  rect_strokeWidth = 1,
                  rect_height = height s1 - (11 * 2),
                  rect_fill = overviewHighlightRectangleColor (options s1),
                  rect_opacity = 3 / 10,
                  rect_cornerRadius = 2\<rparr>
      in call HighlightLayer_add (s1\<lparr>highlightRect := Some rect\<rparr>))"

text \<open>
  \<^verbatim>\<open>this._highlightRect.setAttrs\<close> on a missing region is a \<^verbatim>\<open>TypeError\<close>, thrown
  after the two times have been stored.
\<close>

definition updateHighlightRect :: "overview \<Rightarrow> real \<Rightarrow> real \<Rightarrow> outcome" where
  "updateHighlightRect s startTime endTime =
     (let s1 = s\<lparr>highlightRectStartTime := startTime, highlightRectEndTime := endTime\<rparr>;
          startOffset = timeToPixels s1 startTime;
          endOffset = timeToPixels s1 endTime
      in case highlightRect s1 of
           None \<Rightarrow> Thrown TypeError s1
         | Some r \<Rightarrow>
             Done (call HighlightLayer_draw
               (s1\<lparr>highlightRect :=
                     Some (r\<lparr>rect_x := Some startOffset,
                             rect_width := endOffset - startOffset\<rparr>)\<rparr>)))"

section \<open>Redraw cascade\<close>

definition updateWaveform :: "overview \<Rightarrow> outcome" where
  "updateWaveform s =
     (let s1 = call WaveformLayer_draw s;
          playheadTime = player_currentTime s1;
          s2 = call Player_getCurrentTime s1;
          s3 = call (Playhead_updatePlayheadTime playheadTime) s2
      in and_then
           (if highlightRect s3 \<noteq> None
            then updateHighlightRect s3 (highlightRectStartTime s3) (highlightRectEndTime s3)
            else Done s3)
           (\<lambda>s4.
              let frameStartTime = 0;
                  frameEndTime = pixelsToTime s4 (real (width s4))
              in Done (call (Segments_updateSegments frameStartTime frameEndTime)
                        (call (Points_updatePoints frameStartTime frameEndTime) s4))))"

section \<open>Resize and debounce\<close>

definition stage_setWidth :: "konva_stage \<Rightarrow> overview \<Rightarrow> overview" where
  "stage_setWidth st s =
     call (Stage_setWidth (width s)) (s\<lparr>stage := Some (st\<lparr>stage_width := width s\<rparr>)\<rparr>)"

text \<open>The function passed to \<^verbatim>\<open>setTimeout\<close> by the resize handler.\<close>

definition resize_timeout_callback :: "resample_fn \<Rightarrow> overview \<Rightarrow> outcome" where
  "resize_timeout_callback resample s =
     (let s1 = s\<lparr>width := clientWidth (container s)\<rparr>;
          s2 = (call (WaveformData_resample (width s1)) s1)
                 \<lparr>data := resample (originalWaveformData s1) (width s1)\<rparr>
      in case stage s2 of
           None \<Rightarrow> Thrown TypeError s2
         | Some st \<Rightarrow> updateWaveform (stage_setWidth st s2))"

text \<open>The handler of \<^verbatim>\<open>window_resize\<close>.\<close>

definition window_resize :: "overview \<Rightarrow> outcome" where
  "window_resize s =
     (let s1 = clearResizeTimeout s
      in if clientWidth (container s1) \<noteq> 0 then
           (let s2 = s1\<lparr>width := clientWidth (container s1)\<rparr>
            in case stage s2 of
                 None \<Rightarrow> Thrown TypeError s2
               | Some st \<Rightarrow>
                   (let (i, s3) = setTimeout 500 (stage_setWidth st s2)
                    in Done (s3\<lparr>resizeTimeoutId := Some i\<rparr>)))
         else Done s1)"

section \<open>Pointer input and playback notifications\<close>

text \<open>
  Modelled from the spec: \<^verbatim>\<open>Utils.clamp\<close> of \<^verbatim>\<open>peaks/waveform/waveform.utils\<close> is not
  among the sources; the specification says that the pointer coordinate is clamped into
  the closed range from the lower to the upper bound.
\<close>

definition clamp :: "real \<Rightarrow> real \<Rightarrow> real \<Rightarrow> real" where
  "clamp v lo hi = (if v < lo then lo else if v > hi then hi else v)"

definition onMouseDown :: "overview \<Rightarrow> real \<Rightarrow> outcome" where
  "onMouseDown s mousePosX =
     (let mousePosX' = clamp mousePosX 0 (real (width s));
          time = pixelsToTime s mousePosX'
      in Done (call (Player_seek time) (call (Playhead_updatePlayheadTime time) s)))"

definition onMouseMove :: "overview \<Rightarrow> real \<Rightarrow> outcome" where
  "onMouseMove s mousePosX =
     (let mousePosX' = clamp mousePosX 0 (real (width s));
          time = pixelsToTime s mousePosX'
      in Done (call (Player_seek time) (call (Playhead_updatePlayheadTime time) s)))"

definition player_play :: "overview \<Rightarrow> real \<Rightarrow> outcome" where
  "player_play s time = Done (call (Playhead_updatePlayheadTime time) s)"

definition player_pause :: "overview \<Rightarrow> real \<Rightarrow> outcome" where
  "player_pause s time = Done (call (Playhead_stop time) s)"

definition player_time_update :: "overview \<Rightarrow> real \<Rightarrow> outcome" where
  "player_time_update s time = Done (call (Playhead_updatePlayheadTime time) s)"

definition zoomview_displaying :: "overview \<Rightarrow> real \<Rightarrow> real \<Rightarrow> outcome" where
  "zoomview_displaying s startTime endTime =
     (let s1 = (if highlightRect s = None then createHighlightRect s startTime endTime else s)
      in updateHighlightRect s1 startTime endTime)"

section \<open>Teardown\<close>

definition destroy :: "overview \<Rightarrow> outcome" where
  "destroy s =
     (let s1 = clearResizeTimeout s
      in case stage s1 of
           None \<Rightarrow> Done s1
         | Some st \<Rightarrow> Done ((call Stage_destroy s1)\<lparr>stage := None\<rparr>))"

section \<open>Construction\<close>

text \<open>
  The constructor, on a host with no pending timeout. \<^verbatim>\<open>currentTime\<close> is
  \<^verbatim>\<open>options.mediaElement.currentTime\<close>, which the external player reports as its
  current time.
\<close>

definition WaveformOverview ::
  "resample_fn \<Rightarrow> waveform_data \<Rightarrow> html_element \<Rightarrow> peaks_options \<Rightarrow> real \<Rightarrow> overview" where
  "WaveformOverview resample waveformData container' options' currentTime =
     (let width' = clientWidth container';
          height' = (if clientHeight container' \<noteq> 0 then int (clientHeight container')
                     else options_height options')
      in \<lparr>originalWaveformData = waveformData,
          container = container',
          options = options',
          width = width',
          height = height',
          data = (if width' \<noteq> 0 then resample waveformData width' else waveformData),
          resizeTimeoutId = None,
          stage = Some \<lparr>stage_width = width', stage_height = height'\<rparr>,
          highlightRect = None,
          highlightRectStartTime = 0,
          highlightRectEndTime = 0,
          player_currentTime = currentTime,
          clock = 0,
          timers = [],
          last_timer_id = 0,
          calls = (if width' \<noteq> 0 then [WaveformData_resample width'] else [])
                  @ [Stage_new width' height',
                     Stage_add WaveformLayer,
                     Layer_addToStage SegmentsLayer,
                     Layer_addToStage PointsLayer,
                     Stage_add HighlightLayer,
                     Playhead_new currentTime,
                     Layer_addToStage PlayheadLayer]\<rparr>)"

section \<open>Event loop\<close>

text \<open>
  What the host can deliver: the notifications the view subscribes to, pointer input,
  teardown, and three changes of the environment the view reads: the layout of the
  container, the player's position, and the passing of time.
\<close>

datatype event =
    Player_play real
  | Player_pause real
  | Player_time_update real
  | Zoomview_displaying real real
  | Window_resize
  | Mouse_down real
  | Mouse_move real
  | Destroy
  | Container_layout nat nat
  | Player_position real
  | Elapse nat

text \<open>
  Time passes: the clock advances and every timeout that is due fires, earliest first.
  A fired timeout leaves the table before its callback runs; an uncaught error in one
  callback does not stop the next.
\<close>

definition elapse :: "resample_fn \<Rightarrow> nat \<Rightarrow> overview \<Rightarrow> overview" where
  "elapse resample dt s =
     (let now = clock s + dt;
          due = sort_key snd (filter (\<lambda>(i, d). d \<le> now) (timers s));
          s1 = s\<lparr>clock := now, timers := filter (\<lambda>(i, d). \<not> d \<le> now) (timers s)\<rparr>
      in fold (\<lambda>t s'. state_of (resize_timeout_callback resample s')) due s1)"

fun fire :: "resample_fn \<Rightarrow> event \<Rightarrow> overview \<Rightarrow> outcome" where
  "fire resample (Player_play t) s = player_play s t"
| "fire resample (Player_pause t) s = player_pause s t"
| "fire resample (Player_time_update t) s = player_time_update s t"
| "fire resample (Zoomview_displaying a b) s = zoomview_displaying s a b"
| "fire resample Window_resize s = window_resize s"
| "fire resample (Mouse_down x) s = onMouseDown s x"
| "fire resample (Mouse_move x) s = onMouseMove s x"
| "fire resample Destroy s = destroy s"
| "fire resample (Container_layout w h) s =
     Done (s\<lparr>container := \<lparr>clientWidth = w, clientHeight = h\<rparr>\<rparr>)"
| "fire resample (Player_position t) s = Done (s\<lparr>player_currentTime := t\<rparr>)"
| "fire resample (Elapse dt) s = Done (elapse resample dt s)"

definition run :: "resample_fn \<Rightarrow> event list \<Rightarrow> overview \<Rightarrow> overview" where
  "run resample evs s = fold (\<lambda>e s'. state_of (fire resample e s')) evs s"

text \<open>The widths of the resample calls in a trace, in order.\<close>

fun resamples :: "call list \<Rightarrow> nat list" where
  "resamples [] = []"
| "resamples (WaveformData_resample w # cs) = w # resamples cs"
| "resamples (c # cs) = resamples cs"

text \<open>
  The pending timeouts are tracked: the table is empty, or holds exactly the timeout
  whose (truthy) id is stored in \<^verbatim>\<open>_resizeTimeoutId\<close>.
\<close>

definition tracked :: "overview \<Rightarrow> bool" where
  "tracked s =
     (case timers s of
        [] \<Rightarrow> True
      | [(i, d)] \<Rightarrow> resizeTimeoutId s = Some i \<and> i \<noteq> 0
      | _ \<Rightarrow> False)"

text \<open>
  Two attribute records of the highlight rectangle that differ at most in the
  horizontal position and the width.
\<close>

definition only_x_width_changed :: "konva_rect \<Rightarrow> konva_rect \<Rightarrow> bool" where
  "only_x_width_changed r r' \<longleftrightarrow>
     rect_startOffset r' = rect_startOffset r
   \<and> rect_y r' = rect_y r
   \<and> rect_stroke r' = rect_stroke r
   \<and> rect_strokeWidth r' = rect_strokeWidth r
   \<and> rect_height r' = rect_height r
   \<and> rect_fill r' = rect_fill r
   \<and> rect_opacity r' = rect_opacity r
   \<and> rect_cornerRadius r' = rect_cornerRadius r"

section \<open>A concrete view\<close>

text \<open>
  One minute of audio at 44100 Hz, 512 samples per pixel, in a container of 1000 by 200
  pixels. The sample resampling keeps the rate and spreads the 2646000 samples over the
  requested width.
\<close>

definition demo_resample :: resample_fn where
  "demo_resample d w = d\<lparr>adapter := (adapter d)\<lparr>scale := real (2646000 div w)\<rparr>\<rparr>"

definition demo_data :: waveform_data where
  "demo_data = \<lparr>adapter = \<lparr>sample_rate = 44100, scale = 512\<rparr>\<rparr>"

definition demo_container :: html_element where
  "demo_container = \<lparr>clientWidth = 1000, clientHeight = 200\<rparr>"

definition demo_options :: peaks_options where
  "demo_options = \<lparr>overviewWaveformColor = ''#dddddd'',
                    overviewHighlightRectangleColor = ''#808080'',
                    options_height = 200\<rparr>"

definition demo_view :: overview where
  "demo_view = WaveformOverview demo_resample demo_data demo_container demo_options 0"

text \<open>The demo view after a resize to 800 pixels: the debounce timer is armed.\<close>

definition demo_pending :: overview where
  "demo_pending = run demo_resample [Container_layout 800 200, Window_resize] demo_view"

text \<open>The same view once its container has been hidden (zero width and height).\<close>

definition demo_hidden :: overview where
  "demo_hidden = run demo_resample [Container_layout 0 0] demo_pending"

text \<open>A container that reports no width.\<close>

definition demo_container_hidden :: html_element where
  "demo_container_hidden = \<lparr>clientWidth = 0, clientHeight = 0\<rparr>"

text \<open>The demo view built in a container that reports no width.\<close>

definition demo_view_hidden :: overview where
  "demo_view_hidden =
     WaveformOverview demo_resample demo_data demo_container_hidden demo_options 0"

text \<open>The demo view after the zoomed view has reported the range from 2 s to 5 s.\<close>

definition demo_highlighted :: overview where
  "demo_highlighted = run demo_resample [Zoomview_displaying 2 5] demo_view"

section \<open>Auxiliary facts\<close>

lemma resamples_append: "resamples (xs @ ys) = resamples xs @ resamples ys"
  by (induction xs rule: resamples.induct) simp_all

lemma clearResizeTimeout_frame:
  "clearResizeTimeout s =
     s\<lparr>timers := timers (clearResizeTimeout s),
       resizeTimeoutId := resizeTimeoutId (clearResizeTimeout s)\<rparr>"
  by (simp add: clearResizeTimeout_def clearTimeout_def split: option.splits)

lemma clearResizeTimeout_tracked:
  "tracked s \<Longrightarrow> timers (clearResizeTimeout s) = []"
  by (auto simp: tracked_def clearResizeTimeout_def clearTimeout_def
           split: option.splits list.splits)

lemma clearResizeTimeout_falsy:
  "resizeTimeoutId s = None \<or> resizeTimeoutId s = Some 0 \<Longrightarrow> clearResizeTimeout s = s"
  by (auto simp: clearResizeTimeout_def)

lemma clearResizeTimeout_truthy:
  "resizeTimeoutId s = Some i \<Longrightarrow> i \<noteq> 0 \<Longrightarrow> resizeTimeoutId (clearResizeTimeout s) = None"
  by (simp add: clearResizeTimeout_def clearTimeout_def)

lemma clearResizeTimeout_id:
  "resizeTimeoutId (clearResizeTimeout s) = None
   \<or> resizeTimeoutId (clearResizeTimeout s) = Some 0"
  by (auto simp: clearResizeTimeout_def clearTimeout_def split: option.splits)

lemma updateWaveform_eq:
  "updateWaveform s =
     Done (s\<lparr>highlightRect :=
               map_option
                 (\<lambda>r. r\<lparr>rect_x := Some (timeToPixels s (highlightRectStartTime s)),
                        rect_width := timeToPixels s (highlightRectEndTime s)
                                      - timeToPixels s (highlightRectStartTime s)\<rparr>)
                 (highlightRect s),
             calls := calls s
               @ [WaveformLayer_draw, Player_getCurrentTime,
                  Playhead_updatePlayheadTime (player_currentTime s)]
               @ (if highlightRect s = None then [] else [HighlightLayer_draw])
               @ [Points_updatePoints 0 (pixelsToTime s (real (width s))),
                  Segments_updateSegments 0 (pixelsToTime s (real (width s)))]\<rparr>)"
  by (cases "highlightRect s")
     (simp_all add: updateWaveform_def updateHighlightRect_def call_def Let_def
        timeToPixels_def pixelsToTime_def)

lemma callback_eq:
  "stage s = Some st \<Longrightarrow>
   resize_timeout_callback rs s =
     updateWaveform
       (s\<lparr>width := clientWidth (container s),
          data := rs (originalWaveformData s) (clientWidth (container s)),
          stage := Some (st\<lparr>stage_width := clientWidth (container s)\<rparr>),
          calls := calls s @ [WaveformData_resample (clientWidth (container s)),
                              Stage_setWidth (clientWidth (container s))]\<rparr>)"
  by (simp add: resize_timeout_callback_def Let_def call_def stage_setWidth_def)

lemma window_resize_arms:
  assumes "tracked s" "stage s = Some st" "clientWidth (container s) \<noteq> 0"
  shows "window_resize s =
     Done (s\<lparr>width := clientWidth (container s),
             stage := Some (st\<lparr>stage_width := clientWidth (container s)\<rparr>),
             calls := calls s @ [Stage_setWidth (clientWidth (container s))],
             timers := [(Suc (last_timer_id s), clock s + 500)],
             last_timer_id := Suc (last_timer_id s),
             resizeTimeoutId := Some (Suc (last_timer_id s))\<rparr>)"
proof -
  have "clearResizeTimeout s =
          s\<lparr>timers := [], resizeTimeoutId := resizeTimeoutId (clearResizeTimeout s)\<rparr>"
    using clearResizeTimeout_frame[of s] clearResizeTimeout_tracked[OF assms(1)] by simp
  then obtain k where k: "clearResizeTimeout s = s\<lparr>timers := [], resizeTimeoutId := k\<rparr>" ..
  show ?thesis using assms(2,3)
    by (simp add: window_resize_def k Let_def stage_setWidth_def setTimeout_def call_def)
qed

lemma elapse_empty: "timers s = [] \<Longrightarrow> elapse rs dt s = s\<lparr>clock := clock s + dt\<rparr>"
  by (simp add: elapse_def Let_def)

lemma elapse_not_due:
  "timers s = [(i, dl)] \<Longrightarrow> clock s + dt < dl \<Longrightarrow>
   elapse rs dt s = s\<lparr>clock := clock s + dt\<rparr>"
  by (simp add: elapse_def Let_def)

lemma elapse_due:
  "timers s = [(i, dl)] \<Longrightarrow> dl \<le> clock s + dt \<Longrightarrow>
   elapse rs dt s =
     state_of (resize_timeout_callback rs (s\<lparr>clock := clock s + dt, timers := []\<rparr>))"
  by (simp add: elapse_def Let_def)

lemma demo_view_eq:
  "demo_view =
     \<lparr>originalWaveformData = demo_data,
      container = demo_container,
      options = demo_options,
      width = 1000,
      height = 200,
      data = demo_resample demo_data 1000,
      resizeTimeoutId = None,
      stage = Some \<lparr>stage_width = 1000, stage_height = 200\<rparr>,
      highlightRect = None,
      highlightRectStartTime = 0,
      highlightRectEndTime = 0,
      player_currentTime = 0,
      clock = 0,
      timers = [],
      last_timer_id = 0,
      calls = [WaveformData_resample 1000, Stage_new 1000 200, Stage_add WaveformLayer,
               Layer_addToStage SegmentsLayer, Layer_addToStage PointsLayer,
               Stage_add HighlightLayer, Playhead_new 0, Layer_addToStage PlayheadLayer]\<rparr>"
  by (simp add: demo_view_def WaveformOverview_def demo_container_def)

lemma demo_pending_eq:
  "demo_pending =
     demo_view\<lparr>container := \<lparr>clientWidth = 800, clientHeight = 200\<rparr>,
               width := 800,
               stage := Some \<lparr>stage_width = 800, stage_height = 200\<rparr>,
               calls := calls demo_view @ [Stage_setWidth 800],
               timers := [(1, 500)],
               last_timer_id := 1,
               resizeTimeoutId := Some 1\<rparr>"
  by (simp add: demo_pending_def run_def demo_view_eq window_resize_def
        clearResizeTimeout_def stage_setWidth_def setTimeout_def call_def Let_def)

lemma demo_hidden_eq:
  "demo_hidden = demo_pending\<lparr>container := \<lparr>clientWidth = 0, clientHeight = 0\<rparr>\<rparr>"
  by (simp add: demo_hidden_def run_def)

lemma tracked_demo_view: "tracked demo_view"
  by (simp add: tracked_def demo_view_eq)

lemma tracked_demo_pending: "tracked demo_pending"
  by (simp add: tracked_def demo_pending_eq)

lemma tracked_demo_hidden: "tracked demo_hidden"
  by (simp add: tracked_def demo_hidden_eq demo_pending_eq)

lemma tracked_cong:
  "timers s' = timers s \<Longrightarrow> resizeTimeoutId s' = resizeTimeoutId s \<Longrightarrow> tracked s' = tracked s"
  by (auto simp: tracked_def split: list.splits)

lemma callback_cases:
  "(stage s = None \<and> resize_timeout_callback rs s =
      Thrown TypeError (s\<lparr>width := clientWidth (container s),
          data := rs (originalWaveformData s) (clientWidth (container s)),
          calls := calls s @ [WaveformData_resample (clientWidth (container s))]\<rparr>))
   \<or> (\<exists>st. stage s = Some st \<and> resize_timeout_callback rs s =
     updateWaveform
       (s\<lparr>width := clientWidth (container s),
          data := rs (originalWaveformData s) (clientWidth (container s)),
          stage := Some (st\<lparr>stage_width := clientWidth (container s)\<rparr>),
          calls := calls s @ [WaveformData_resample (clientWidth (container s)),
                              Stage_setWidth (clientWidth (container s))]\<rparr>))"
  by (cases "stage s") (simp_all add: resize_timeout_callback_def Let_def call_def stage_setWidth_def)

lemma callback_timers:
  "timers (state_of (resize_timeout_callback rs s)) = timers s"
  "resizeTimeoutId (state_of (resize_timeout_callback rs s)) = resizeTimeoutId s"
  using callback_cases[of s rs] by (auto simp: updateWaveform_eq)

lemma callback_frame:
  "highlightRect s = Some r \<Longrightarrow>
   \<exists>r'. highlightRect (state_of (resize_timeout_callback rs s)) = Some r'
        \<and> only_x_width_changed r r'"
  using callback_cases[of s rs] by (auto simp: updateWaveform_eq only_x_width_changed_def)

lemma only_x_width_changed_refl: "only_x_width_changed r r"
  by (simp add: only_x_width_changed_def)

lemma only_x_width_changed_trans:
  "only_x_width_changed r r' \<Longrightarrow> only_x_width_changed r' r'' \<Longrightarrow> only_x_width_changed r r''"
  by (simp add: only_x_width_changed_def)

lemma fold_callback_timers:
  "timers (fold (\<lambda>t s'. state_of (resize_timeout_callback rs s')) ts s) = timers s
   \<and> resizeTimeoutId (fold (\<lambda>t s'. state_of (resize_timeout_callback rs s')) ts s)
       = resizeTimeoutId s"
  by (induction ts arbitrary: s) (simp_all add: callback_timers)

lemma fold_callback_frame:
  "highlightRect s = Some r \<Longrightarrow>
   \<exists>r'. highlightRect (fold (\<lambda>t s'. state_of (resize_timeout_callback rs s')) ts s) = Some r'
        \<and> only_x_width_changed r r'"
proof (induction ts arbitrary: s r)
  case Nil
  then show ?case by (simp add: only_x_width_changed_refl)
next
  case (Cons t ts)
  from callback_frame[OF Cons.prems, of rs] obtain r1
    where r1: "highlightRect (state_of (resize_timeout_callback rs s)) = Some r1"
      and f1: "only_x_width_changed r r1" by blast
  from Cons.IH[OF r1] obtain r2
    where "highlightRect (fold (\<lambda>t s'. state_of (resize_timeout_callback rs s')) ts
             (state_of (resize_timeout_callback rs s))) = Some r2"
      and "only_x_width_changed r1 r2" by blast
  with f1 show ?case by (auto intro: only_x_width_changed_trans)
qed

lemma tracked_elapse: "tracked s \<Longrightarrow> tracked (elapse rs dt s)"
proof -
  assume t: "tracked s"
  let ?s1 = "s\<lparr>clock := clock s + dt, timers := filter (\<lambda>(i, d). \<not> d \<le> clock s + dt) (timers s)\<rparr>"
  have "tracked ?s1" using t by (auto simp: tracked_def split: list.splits)
  moreover have "tracked (elapse rs dt s) = tracked ?s1"
    by (rule tracked_cong) (simp_all add: elapse_def Let_def fold_callback_timers)
  ultimately show ?thesis by simp
qed

lemma elapse_frame:
  "highlightRect s = Some r \<Longrightarrow>
   \<exists>r'. highlightRect (elapse rs dt s) = Some r' \<and> only_x_width_changed r r'"
  unfolding elapse_def Let_def by (rule fold_callback_frame) simp

lemma zoomview_displaying_existing:
  "highlightRect s = Some r \<Longrightarrow>
   zoomview_displaying s a b =
     Done (s\<lparr>highlightRectStartTime := a, highlightRectEndTime := b,
             highlightRect := Some (r\<lparr>rect_x := Some (timeToPixels s a),
                                      rect_width := timeToPixels s b - timeToPixels s a\<rparr>),
             calls := calls s @ [HighlightLayer_draw]\<rparr>)"
  by (simp add: zoomview_displaying_def updateHighlightRect_def Let_def call_def timeToPixels_def)

lemma zoomview_displaying_first:
  "highlightRect s = None \<Longrightarrow>
   zoomview_displaying s a b =
     Done (s\<lparr>highlightRectStartTime := a, highlightRectEndTime := b,
             highlightRect :=
               Some \<lparr>rect_startOffset = 0,
                     rect_x = Some (timeToPixels s a),
                     rect_y = 11,
                     rect_width = timeToPixels s b - timeToPixels s a,
                     rect_stroke = overviewHighlightRectangleColor (options s),
                     rect_strokeWidth = 1,
                     rect_height = height s - 22,
                     rect_fill = overviewHighlightRectangleColor (options s),
                     rect_opacity = 3 / 10,
                     rect_cornerRadius = 2\<rparr>,
             calls := calls s @ [HighlightLayer_add, HighlightLayer_draw]\<rparr>)"
  by (simp add: zoomview_displaying_def createHighlightRect_def updateHighlightRect_def
        Let_def call_def timeToPixels_def)

lemma window_resize_other:
  "highlightRect (state_of (window_resize s)) = highlightRect s"
proof -
  have c: "clearResizeTimeout s = s\<lparr>timers := timers (clearResizeTimeout s), resizeTimeoutId := resizeTimeoutId (clearResizeTimeout s)\<rparr>"
    by (rule clearResizeTimeout_frame)
  then obtain ts k where k: "clearResizeTimeout s = s\<lparr>timers := ts, resizeTimeoutId := k\<rparr>" by blast
  show ?thesis
    by (simp add: window_resize_def k Let_def stage_setWidth_def setTimeout_def call_def
        split: option.splits)
qed

lemma destroy_other:
  "highlightRect (state_of (destroy s)) = highlightRect s"
proof -
  obtain ts k where k: "clearResizeTimeout s = s\<lparr>timers := ts, resizeTimeoutId := k\<rparr>"
    using clearResizeTimeout_frame[of s] by blast
  show ?thesis
    by (simp add: destroy_def k Let_def call_def split: option.splits)
qed

lemma fire_frame:
  assumes "highlightRect s = Some r"
  shows "\<exists>r'. highlightRect (state_of (fire rs e s)) = Some r' \<and> only_x_width_changed r r'"
proof (cases e)
  case (Zoomview_displaying a b)
  then show ?thesis using assms
    by (simp add: zoomview_displaying_existing only_x_width_changed_def)
next
  case Window_resize
  then show ?thesis using assms by (simp add: window_resize_other only_x_width_changed_refl)
next
  case Destroy
  then show ?thesis using assms by (simp add: destroy_other only_x_width_changed_refl)
next
  case (Elapse dt)
  then show ?thesis using elapse_frame[OF assms] by simp
qed (use assms in \<open>simp_all add: only_x_width_changed_refl player_play_def player_pause_def
       player_time_update_def onMouseDown_def onMouseMove_def call_def Let_def\<close>)

lemma run_frame:
  "highlightRect s = Some r \<Longrightarrow>
   \<exists>r'. highlightRect (run rs evs s) = Some r' \<and> only_x_width_changed r r'"
proof (induction evs arbitrary: s r)
  case Nil
  then show ?case by (simp add: run_def only_x_width_changed_refl)
next
  case (Cons e evs)
  from fire_frame[OF Cons.prems, of rs e] obtain r1
    where r1: "highlightRect (state_of (fire rs e s)) = Some r1"
      and f1: "only_x_width_changed r r1" by blast
  from Cons.IH[OF r1] obtain r2
    where "highlightRect (run rs evs (state_of (fire rs e s))) = Some r2"
      and "only_x_width_changed r1 r2" by blast
  with f1 show ?case by (auto simp: run_def intro: only_x_width_changed_trans)
qed

lemma tracked_container: "tracked (s\<lparr>container := c\<rparr>) = tracked s"
  by (rule tracked_cong) simp_all

lemma tracked_single: "timers s = [(i, d)] \<Longrightarrow> tracked s = (resizeTimeoutId s = Some i \<and> i \<noteq> 0)"
  by (simp add: tracked_def)

lemma calls_updateWaveform:
  "resamples (calls (state_of (updateWaveform s))) = resamples (calls s)"
  by (simp add: updateWaveform_eq resamples_append)

lemma callback_fields:
  assumes "stage s = Some st"
  shows "\<not> throws (resize_timeout_callback rs s)"
    and "resamples (calls (state_of (resize_timeout_callback rs s)))
          = resamples (calls s) @ [clientWidth (container s)]"
    and "data (state_of (resize_timeout_callback rs s))
          = rs (originalWaveformData s) (clientWidth (container s))"
    and "width (state_of (resize_timeout_callback rs s)) = clientWidth (container s)"
    and "timers (state_of (resize_timeout_callback rs s)) = timers s"
    and "resizeTimeoutId (state_of (resize_timeout_callback rs s)) = resizeTimeoutId s"
  by (simp_all add: callback_eq[OF assms] updateWaveform_eq resamples_append)

section \<open>Resize notifications\<close>

text \<open>
  C1, as stated, fails: a resize notification that finds the container at width zero
  does not leave the pending-resample timer state unchanged. In the demo view with an
  armed debounce timer and a hidden container, the handler cancels the timer.
\<close>

theorem resize_zero_width_counterexample:
  "clientWidth (container demo_hidden) = 0
   \<and> timers (state_of (window_resize demo_hidden)) \<noteq> timers demo_hidden"
  by (simp add: demo_hidden_eq demo_pending_eq demo_view_eq window_resize_def
        clearResizeTimeout_def clearTimeout_def Let_def)

text \<open>
  C1 (amended): a resize notification that finds the container at width zero throws
  nothing, leaves the stored width, the active dataset and every other field but the
  timer state unchanged, and makes no collaborator call, hence no resample call. The
  only change is the handler's unconditional first step: a stored truthy timer id is
  cleared and the stored id reset to null, so that no tracked timer stays armed; with
  no stored id the state is unchanged.
\<close>

theorem resize_zero_width:
  assumes "clientWidth (container s) = 0"
  shows "\<not> throws (window_resize s)
     \<and> (let s' = state_of (window_resize s)
        in width s' = width s
         \<and> data s' = data s
         \<and> calls s' = calls s
         \<and> s' = s\<lparr>timers := timers s', resizeTimeoutId := resizeTimeoutId s'\<rparr>
         \<and> (tracked s \<longrightarrow> timers s' = [])
         \<and> (\<forall>i. resizeTimeoutId s = Some i \<and> i \<noteq> 0 \<longrightarrow> resizeTimeoutId s' = None)
         \<and> (resizeTimeoutId s = None \<longrightarrow> s' = s))"
proof -
  have "container (clearResizeTimeout s) = container s"
    by (subst clearResizeTimeout_frame) simp
  with assms have eq: "window_resize s = Done (clearResizeTimeout s)"
    by (simp add: window_resize_def Let_def)
  have "width (clearResizeTimeout s) = width s"
    by (subst clearResizeTimeout_frame) simp
  moreover have "data (clearResizeTimeout s) = data s"
    by (subst clearResizeTimeout_frame) simp
  moreover have "calls (clearResizeTimeout s) = calls s"
    by (subst clearResizeTimeout_frame) simp
  moreover note clearResizeTimeout_frame[of s]
  moreover have "\<forall>i. resizeTimeoutId s = Some i \<and> i \<noteq> 0
                    \<longrightarrow> resizeTimeoutId (clearResizeTimeout s) = None"
    by (auto intro: clearResizeTimeout_truthy)
  ultimately show ?thesis
    by (simp add: eq Let_def clearResizeTimeout_tracked clearResizeTimeout_falsy)
qed

theorem resize_zero_width_witness:
  "clientWidth (container demo_hidden) = 0
   \<and> tracked demo_hidden
   \<and> timers demo_hidden = [(1, 500)]
   \<and> \<not> throws (window_resize demo_hidden)
   \<and> width (state_of (window_resize demo_hidden)) = 800
   \<and> data (state_of (window_resize demo_hidden)) = demo_resample demo_data 1000
   \<and> calls (state_of (window_resize demo_hidden)) = calls demo_hidden
   \<and> timers (state_of (window_resize demo_hidden)) = []
   \<and> resizeTimeoutId demo_hidden = Some 1
   \<and> resizeTimeoutId (state_of (window_resize demo_hidden)) = None
   \<and> clientWidth (container demo_view_hidden) = 0
   \<and> resizeTimeoutId demo_view_hidden = None
   \<and> state_of (window_resize demo_view_hidden) = demo_view_hidden"
proof -
  have h: "clientWidth (container demo_hidden) = 0"
    by (simp add: demo_hidden_eq)
  have w: "width demo_hidden = 800" "data demo_hidden = demo_resample demo_data 1000"
    "timers demo_hidden = [(1, 500)]" "resizeTimeoutId demo_hidden = Some 1"
    by (simp_all add: demo_hidden_eq demo_pending_eq demo_view_eq)
  have h': "clientWidth (container demo_view_hidden) = 0"
    by (simp add: demo_view_hidden_def WaveformOverview_def demo_container_hidden_def Let_def)
  have n: "resizeTimeoutId demo_view_hidden = None"
    by (simp add: demo_view_hidden_def WaveformOverview_def Let_def)
  show ?thesis
    using resize_zero_width[OF h] resize_zero_width[OF h'] h h' n w tracked_demo_hidden
    by (simp add: Let_def)
qed

text \<open>
  C2: from a tracked state of a live view, two resize notifications that find the
  container at the nonzero widths \<open>w1\<close> and \<open>w2\<close>, delivered \<open>d < 500\<close> ms apart and
  followed by no further resize, give exactly one resample of the original dataset, at
  width \<open>w2\<close>. The later notification replaces the timer armed by the earlier one,
  no resample happens before the later timer fires, and none happens afterwards.
\<close>

theorem debounce_last_resize_wins:
  assumes "tracked s" and "stage s = Some st"
    and "w1 \<noteq> 0" and "w2 \<noteq> 0" and "d < 500" and "500 \<le> e"
  shows "let s1 = run rs [Container_layout w1 h1, Window_resize] s;
             s2 = run rs [Elapse d, Container_layout w2 h2, Window_resize] s1;
             s3 = run rs [Elapse e] s2
         in timers s1 = [(last_timer_id s + 1, clock s + 500)]
          \<and> timers s2 = [(last_timer_id s + 2, clock s + d + 500)]
          \<and> resamples (calls s2) = resamples (calls s)
          \<and> resamples (calls s3) = resamples (calls s) @ [w2]
          \<and> data s3 = rs (originalWaveformData s) w2
          \<and> width s3 = w2
          \<and> timers s3 = []
          \<and> (\<forall>e'. resamples (calls (run rs [Elapse e'] s3)) = resamples (calls s) @ [w2])"
proof -
  define a where "a = s\<lparr>container := \<lparr>clientWidth = w1, clientHeight = h1\<rparr>\<rparr>"
  have a: "tracked a" "stage a = Some st" "clientWidth (container a) \<noteq> 0"
    using assms by (simp_all add: a_def tracked_container)
  define s1 where "s1 = run rs [Container_layout w1 h1, Window_resize] s"
  have s1: "s1 = a\<lparr>width := w1, stage := Some (st\<lparr>stage_width := w1\<rparr>),
             calls := calls s @ [Stage_setWidth w1],
             timers := [(Suc (last_timer_id s), clock s + 500)],
             last_timer_id := Suc (last_timer_id s),
             resizeTimeoutId := Some (Suc (last_timer_id s))\<rparr>"
    unfolding s1_def run_def using window_resize_arms[OF a] by (simp add: a_def)
  define b where "b = s1\<lparr>clock := clock s + d, container := \<lparr>clientWidth = w2, clientHeight = h2\<rparr>\<rparr>"
  have el: "elapse rs d s1 = s1\<lparr>clock := clock s1 + d\<rparr>"
    by (rule elapse_not_due[where i = "Suc (last_timer_id s)" and dl = "clock s + 500"])
       (use assms in \<open>simp_all add: s1 a_def\<close>)
  have b: "tracked b" "stage b = Some (st\<lparr>stage_width := w1\<rparr>)" "clientWidth (container b) \<noteq> 0"
    using assms by (simp_all add: b_def s1 tracked_single)
  define s2 where "s2 = run rs [Elapse d, Container_layout w2 h2, Window_resize] s1"
  have s2: "s2 = b\<lparr>width := w2, stage := Some (st\<lparr>stage_width := w2\<rparr>),
             calls := calls s @ [Stage_setWidth w1, Stage_setWidth w2],
             timers := [(Suc (Suc (last_timer_id s)), clock s + d + 500)],
             last_timer_id := Suc (Suc (last_timer_id s)),
             resizeTimeoutId := Some (Suc (Suc (last_timer_id s)))\<rparr>"
    unfolding s2_def run_def using window_resize_arms[OF b]
    by (simp add: el) (simp add: b_def s1 a_def)
  define c where "c = s2\<lparr>clock := clock s2 + e, timers := []\<rparr>"
  have c: "stage c = Some (st\<lparr>stage_width := w2\<rparr>)" "clientWidth (container c) = w2"
    "calls c = calls s @ [Stage_setWidth w1, Stage_setWidth w2]"
    "originalWaveformData c = originalWaveformData s" "timers c = []"
    by (simp_all add: c_def s2 b_def s1 a_def)
  define s3 where "s3 = run rs [Elapse e] s2"
  have "elapse rs e s2 = state_of (resize_timeout_callback rs c)"
    unfolding c_def
    by (rule elapse_due[where i = "Suc (Suc (last_timer_id s))" and dl = "clock s + d + 500"])
       (use assms in \<open>simp_all add: s2 b_def s1 a_def\<close>)
  then have s3: "s3 = state_of (resize_timeout_callback rs c)"
    by (simp add: s3_def run_def)
  have r3: "resamples (calls s3) = resamples (calls s) @ [w2]"
    "data s3 = rs (originalWaveformData s) w2" "width s3 = w2" "timers s3 = []"
    using callback_fields[OF c(1), of rs] c by (simp_all add: s3 resamples_append)
  have later: "resamples (calls (run rs [Elapse e'] s3)) = resamples (calls s) @ [w2]" for e'
    using r3 by (simp add: run_def elapse_empty)
  have "timers s1 = [(last_timer_id s + 1, clock s + 500)]" by (simp add: s1)
  moreover have "timers s2 = [(last_timer_id s + 2, clock s + d + 500)]" by (simp add: s2)
  moreover have "resamples (calls s2) = resamples (calls s)" by (simp add: s2 resamples_append)
  ultimately show ?thesis
    using r3 later unfolding s1_def s2_def s3_def by (simp add: Let_def)
qed

theorem debounce_last_resize_wins_witness:
  "tracked demo_view
   \<and> stage demo_view = Some \<lparr>stage_width = 1000, stage_height = 200\<rparr>
   \<and> (800::nat) \<noteq> 0 \<and> (900::nat) \<noteq> 0 \<and> (100::nat) < 500 \<and> (500::nat) \<le> 500
   \<and> (let s1 = run demo_resample [Container_layout 800 200, Window_resize] demo_view;
           s2 = run demo_resample [Elapse 100, Container_layout 900 200, Window_resize] s1;
           s3 = run demo_resample [Elapse 500] s2
       in timers s1 = [(1, 500)]
        \<and> timers s2 = [(2, 600)]
        \<and> resamples (calls s2) = [1000]
        \<and> resamples (calls s3) = [1000, 900]
        \<and> data s3 = demo_resample demo_data 900
        \<and> width s3 = 900
        \<and> timers s3 = [])"
proof -
  have st: "stage demo_view = Some \<lparr>stage_width = 1000, stage_height = 200\<rparr>"
    by (simp add: demo_view_eq)
  have f: "last_timer_id demo_view = 0" "clock demo_view = 0"
    "resamples (calls demo_view) = [1000]" "originalWaveformData demo_view = demo_data"
    by (simp_all add: demo_view_eq)
  have n: "(800::nat) \<noteq> 0" "(900::nat) \<noteq> 0" "(100::nat) < 500" "(500::nat) \<le> 500"
    by simp_all
  show ?thesis
    using debounce_last_resize_wins[OF tracked_demo_view st n, of demo_resample 200 200]
      tracked_demo_view st
    by (simp add: Let_def f)
qed

text \<open>
  C3: the claim is right about the intent the source states (``avoid resampling waveform
  data to zero width'') but the timer callback misses the guard. It reads the
  container width again when it fires; if the container has been hidden since the
  resize notification, the stored width becomes zero and the valid dataset is replaced
  by the original resampled to width zero.
\<close>

theorem timer_fires_at_zero_width:
  "width demo_pending = 800
   \<and> data demo_pending = demo_resample demo_data 1000
   \<and> (let s = run demo_resample [Container_layout 0 0, Elapse 500] demo_pending
      in width s = 0
       \<and> data s = demo_resample demo_data 0
       \<and> resamples (calls s) = [1000, 0])"
  by (simp add: demo_pending_eq demo_view_eq run_def elapse_def Let_def
        resize_timeout_callback_def stage_setWidth_def call_def updateWaveform_def)

section \<open>Highlight region\<close>

text \<open>
  C4: the first visible-range notification creates the highlight region with
  \<open>y = 11\<close>, height equal to the view height minus 22 and opacity 0.3, placed at the
  pixel bounds of the reported range; a notification that finds a region rewrites only
  its horizontal position and width; and after any sequence of events (further
  notifications, resizes and resamples included) the region still has the vertical
  inset, opacity and style it was created with.
\<close>

theorem highlight_region_frame:
  "(highlightRect s = None \<longrightarrow>
      (\<exists>r. \<not> throws (zoomview_displaying s a b)
         \<and> highlightRect (state_of (zoomview_displaying s a b)) = Some r
         \<and> rect_y r = 11
         \<and> rect_height r = height s - 22
         \<and> rect_opacity r = 3 / 10
         \<and> rect_x r = Some (timeToPixels s a)
         \<and> rect_width r = timeToPixels s b - timeToPixels s a))
   \<and> (\<forall>r. highlightRect s = Some r \<longrightarrow>
          \<not> throws (zoomview_displaying s a b)
        \<and> highlightRect (state_of (zoomview_displaying s a b))
            = Some (r\<lparr>rect_x := Some (timeToPixels s a),
                      rect_width := timeToPixels s b - timeToPixels s a\<rparr>)
        \<and> (\<exists>r'. highlightRect (run rs evs s) = Some r' \<and> only_x_width_changed r r'))"
proof (intro conjI impI allI)
  assume "highlightRect s = None"
  then show "\<exists>r. \<not> throws (zoomview_displaying s a b)
         \<and> highlightRect (state_of (zoomview_displaying s a b)) = Some r
         \<and> rect_y r = 11
         \<and> rect_height r = height s - 22
         \<and> rect_opacity r = 3 / 10
         \<and> rect_x r = Some (timeToPixels s a)
         \<and> rect_width r = timeToPixels s b - timeToPixels s a"
    by (simp add: zoomview_displaying_first)
next
  fix r assume "highlightRect s = Some r"
  then show "\<not> throws (zoomview_displaying s a b)"
    by (simp add: zoomview_displaying_existing)
next
  fix r assume "highlightRect s = Some r"
  then show "highlightRect (state_of (zoomview_displaying s a b))
            = Some (r\<lparr>rect_x := Some (timeToPixels s a),
                      rect_width := timeToPixels s b - timeToPixels s a\<rparr>)"
    by (simp add: zoomview_displaying_existing)
next
  fix r assume "highlightRect s = Some r"
  then show "\<exists>r'. highlightRect (run rs evs s) = Some r' \<and> only_x_width_changed r r'"
    by (rule run_frame)
qed

lemma demo_scale: "data demo_view = \<lparr>adapter = \<lparr>sample_rate = 44100, scale = 2646\<rparr>\<rparr>"
  by (simp add: demo_view_eq demo_resample_def demo_data_def)

lemma demo_highlighted_eq:
  "demo_highlighted =
     demo_view\<lparr>highlightRectStartTime := 2, highlightRectEndTime := 5,
       highlightRect :=
         Some \<lparr>rect_startOffset = 0, rect_x = Some 33, rect_y = 11, rect_width = 50,
               rect_stroke = ''#808080'', rect_strokeWidth = 1, rect_height = 178,
               rect_fill = ''#808080'', rect_opacity = 3 / 10, rect_cornerRadius = 2\<rparr>,
       calls := calls demo_view @ [HighlightLayer_add, HighlightLayer_draw]\<rparr>"
proof -
  have n: "highlightRect demo_view = None" by (simp add: demo_view_eq)
  have t: "timeToPixels demo_view 2 = 33" "timeToPixels demo_view 5 = 83"
    by (simp_all add: timeToPixels_def demo_scale)
  have o: "height demo_view = 200"
    "overviewHighlightRectangleColor (options demo_view) = ''#808080''"
    by (simp_all add: demo_view_eq demo_options_def)
  show ?thesis
    by (simp add: demo_highlighted_def run_def zoomview_displaying_first[OF n] t o)
qed

theorem highlight_region_frame_witness:
  "highlightRect demo_view = None
   \<and> (\<exists>r. highlightRect (state_of (zoomview_displaying demo_view 2 5)) = Some r
         \<and> rect_y r = 11 \<and> rect_height r = 178 \<and> rect_opacity r = 3 / 10
         \<and> rect_x r = Some 33 \<and> rect_width r = 50)
   \<and> (\<exists>r. highlightRect demo_highlighted = Some r
         \<and> rect_y r = 11 \<and> rect_height r = 178
         \<and> highlightRect (state_of (zoomview_displaying demo_highlighted 3 6))
             = Some (r\<lparr>rect_x := Some 50, rect_width := 50\<rparr>)
         \<and> (\<exists>r'. highlightRect
                    (run demo_resample
                       [Zoomview_displaying 3 6, Container_layout 800 200, Window_resize,
                        Elapse 500] demo_highlighted) = Some r'
                 \<and> only_x_width_changed r r'))"
proof -
  have n: "highlightRect demo_view = None" by (simp add: demo_view_eq)
  have t: "timeToPixels demo_view 2 = 33" "timeToPixels demo_view 5 = 83"
    "timeToPixels demo_highlighted 3 = 50" "timeToPixels demo_highlighted 6 = 100"
    by (simp_all add: timeToPixels_def demo_highlighted_eq demo_scale)
  have o: "height demo_view = 200" by (simp add: demo_view_eq)
  define r0 where "r0 = \<lparr>rect_startOffset = 0, rect_x = Some 33, rect_y = 11, rect_width = 50,
               rect_stroke = ''#808080'', rect_strokeWidth = 1, rect_height = 178,
               rect_fill = ''#808080'', rect_opacity = 3 / 10, rect_cornerRadius = 2\<rparr>"
  have h: "highlightRect demo_highlighted = Some r0"
    by (simp add: demo_highlighted_eq r0_def)
  have y: "rect_y r0 = 11" "rect_height r0 = 178" by (simp_all add: r0_def)
  from highlight_region_frame[of demo_view 2 5] n t o
  have first: "\<exists>r. highlightRect (state_of (zoomview_displaying demo_view 2 5)) = Some r
         \<and> rect_y r = 11 \<and> rect_height r = 178 \<and> rect_opacity r = 3 / 10
         \<and> rect_x r = Some 33 \<and> rect_width r = 50"
    by simp
  from highlight_region_frame[of demo_highlighted 3 6 demo_resample
      "[Zoomview_displaying 3 6, Container_layout 800 200, Window_resize, Elapse 500]"] h t
  have later: "highlightRect (state_of (zoomview_displaying demo_highlighted 3 6))
             = Some (r0\<lparr>rect_x := Some 50, rect_width := 50\<rparr>)
         \<and> (\<exists>r'. highlightRect
                    (run demo_resample
                       [Zoomview_displaying 3 6, Container_layout 800 200, Window_resize,
                        Elapse 500] demo_highlighted) = Some r'
                 \<and> only_x_width_changed r0 r')"
    by simp
  from n first h y later show ?thesis by blast
qed

section \<open>Reachable states keep the timer tracked\<close>

lemma tracked_WaveformOverview: "tracked (WaveformOverview resample d c opts t)"
  by (simp add: tracked_def WaveformOverview_def Let_def)

lemma tracked_window_resize: "tracked s \<Longrightarrow> tracked (state_of (window_resize s))"
proof -
  assume t: "tracked s"
  have "clearResizeTimeout s =
          s\<lparr>timers := [], resizeTimeoutId := resizeTimeoutId (clearResizeTimeout s)\<rparr>"
    using clearResizeTimeout_frame[of s] clearResizeTimeout_tracked[OF t] by simp
  then obtain k where k: "clearResizeTimeout s = s\<lparr>timers := [], resizeTimeoutId := k\<rparr>" ..
  show ?thesis
    by (simp add: window_resize_def k Let_def stage_setWidth_def setTimeout_def call_def
          tracked_def split: option.splits)
qed

lemma tracked_destroy: "tracked s \<Longrightarrow> tracked (state_of (destroy s))"
proof -
  assume t: "tracked s"
  have "clearResizeTimeout s =
          s\<lparr>timers := [], resizeTimeoutId := resizeTimeoutId (clearResizeTimeout s)\<rparr>"
    using clearResizeTimeout_frame[of s] clearResizeTimeout_tracked[OF t] by simp
  then obtain k where k: "clearResizeTimeout s = s\<lparr>timers := [], resizeTimeoutId := k\<rparr>" ..
  show ?thesis
    by (simp add: destroy_def k Let_def call_def tracked_def split: option.splits)
qed

lemma tracked_fire: "tracked s \<Longrightarrow> tracked (state_of (fire resample e s))"
proof (cases e)
  case (Zoomview_displaying a b)
  assume "tracked s"
  moreover have "tracked (state_of (zoomview_displaying s a b)) = tracked s"
    by (rule tracked_cong)
       (simp_all add: zoomview_displaying_def createHighlightRect_def updateHighlightRect_def
          Let_def call_def split: option.splits)
  ultimately show ?thesis using Zoomview_displaying by simp
next
  case Window_resize
  assume "tracked s"
  then show ?thesis using Window_resize by (simp add: tracked_window_resize)
next
  case Destroy
  assume "tracked s"
  then show ?thesis using Destroy by (simp add: tracked_destroy)
next
  case (Elapse dt)
  assume "tracked s"
  then show ?thesis using Elapse by (simp add: tracked_elapse)
qed (auto simp: tracked_def player_play_def player_pause_def player_time_update_def
       onMouseDown_def onMouseMove_def call_def Let_def split: list.splits)

lemma tracked_run: "tracked s \<Longrightarrow> tracked (run resample evs s)"
  by (induction evs arbitrary: s) (simp_all add: run_def tracked_fire)

section \<open>Pointer input\<close>

text \<open>
  C5: on a pointer press and on a drag move at raw coordinate \<open>x\<close>, the coordinate is
  clamped into the range from 0 to the stored width, converted with \<open>pixelsToTime\<close>,
  and the handler makes exactly two calls, in this order: the playhead is moved to that
  time, and one seek request with the same time goes to the player. Nothing else
  changes and nothing is thrown.
\<close>

theorem pointer_seek:
  "(let c = clamp x 0 (real (width s));
        t = pixelsToTime s c;
        s' = s\<lparr>calls := calls s @ [Playhead_updatePlayheadTime t, Player_seek t]\<rparr>
    in 0 \<le> c \<and> c \<le> real (width s)
     \<and> (c = x \<or> (x < 0 \<and> c = 0) \<or> (real (width s) < x \<and> c = real (width s)))
     \<and> onMouseDown s x = Done s'
     \<and> onMouseMove s x = Done s'
     \<and> fire rs (Mouse_down x) s = Done s'
     \<and> fire rs (Mouse_move x) s = Done s')"
  by (auto simp: Let_def clamp_def onMouseDown_def onMouseMove_def call_def)

section \<open>Coordinate mapping\<close>

text \<open>Rounding error of binary64 arithmetic.\<close>

lemma round_half_even_error: "\<bar>of_int (round_half_even y) - y\<bar> \<le> 1 / 2"
  unfolding round_half_even_def Let_def by (auto simp: abs_le_iff; linarith)

lemma bitlen_powi_bounds:
  assumes "0 < m"
  shows "2 powi (bitlen m - 1) \<le> (of_int m :: real)"
    and "(of_int m :: real) + 1 \<le> 2 powi (bitlen m)"
proof -
  have b: "1 \<le> bitlen m" using assms by (auto simp: bitlen_alt_def)
  from bitlen_bounds[OF assms]
  have l: "2 ^ nat (bitlen m - 1) \<le> m" and u: "m + 1 \<le> 2 ^ nat (bitlen m)" by auto
  from l have "(of_int (2 ^ nat (bitlen m - 1)) :: real) \<le> of_int m"
    by (simp only: of_int_le_iff)
  then have "(2::real) ^ nat (bitlen m - 1) \<le> of_int m" by simp
  then show "2 powi (bitlen m - 1) \<le> (of_int m :: real)"
    using b by (simp add: power_int_def)
  from u have "(of_int (m + 1) :: real) \<le> of_int (2 ^ nat (bitlen m))"
    by (simp only: of_int_le_iff)
  then have "(of_int m :: real) + 1 \<le> 2 ^ nat (bitlen m)" by simp
  then show "(of_int m :: real) + 1 \<le> 2 powi (bitlen m)"
    using b by (simp add: power_int_def)
qed

lemma binade_bounds:
  assumes "x \<noteq> 0"
  shows "2 powi (binade x) \<le> \<bar>x\<bar>" and "\<bar>x\<bar> < 2 powi (binade x + 1)"
proof -
  have "2 powi (binade x) \<le> \<bar>x\<bar> \<and> \<bar>x\<bar> < 2 powi (binade x + 1)"
  proof (cases "1 \<le> \<bar>x\<bar>")
    case True
    define m where "m = \<lfloor>\<bar>x\<bar>\<rfloor>"
    have m: "0 < m" using True by (simp add: m_def)
    have e: "binade x = bitlen m - 1" using True by (simp add: binade_def m_def)
    have mx: "of_int m \<le> \<bar>x\<bar>" "\<bar>x\<bar> < of_int m + 1" by (simp_all add: m_def)
    from bitlen_powi_bounds[OF m] mx
    have "2 powi (bitlen m - 1) \<le> \<bar>x\<bar>" "\<bar>x\<bar> < 2 powi (bitlen m)" by linarith+
    then show ?thesis by (simp add: e)
  next
    case False
    then have lt: "\<bar>x\<bar> < 1" by simp
    have pos: "0 < \<bar>x\<bar>" using assms by simp
    define y where "y = 1 / \<bar>x\<bar>"
    define m where "m = \<lceil>y\<rceil> - 1"
    define k where "k = bitlen m"
    have y1: "1 < y" using lt pos by (simp add: y_def)
    have my: "of_int m < y" "y \<le> of_int m + 1" by (simp_all add: m_def; linarith)+
    have m: "0 < m" using y1 my by linarith
    have e: "binade x = - k" using False by (simp add: binade_def k_def m_def y_def)
    from bitlen_powi_bounds[OF m] my
    have ky: "2 powi (k - 1) < y" and yk: "y \<le> 2 powi k" unfolding k_def by linarith+
    have p1: "(0::real) < 2 powi k" and p2: "(0::real) < 2 powi (k - 1)" by simp_all
    have xy: "\<bar>x\<bar> = 1 / y" using pos by (simp add: y_def)
    have ypos: "0 < y" using y1 by simp
    have i1: "1 / (2::real) powi k = 2 powi (- k)"
      using power_int_minus[of "2::real" k] by (simp add: inverse_eq_divide)
    have "(2::real) powi (- (k - 1)) = inverse (2 powi (k - 1))" by (rule power_int_minus)
    moreover have "- (k - 1) = - k + 1" by simp
    ultimately have i2: "1 / (2::real) powi (k - 1) = 2 powi (- k + 1)"
      by (simp only: inverse_eq_divide)
    from yk ypos p1 have "1 / 2 powi k \<le> 1 / y" by (simp add: frac_le)
    then have l: "2 powi (- k) \<le> \<bar>x\<bar>" by (simp only: xy i1)
    from ky ypos p2 have "1 / y < 1 / 2 powi (k - 1)" by (simp add: frac_less2)
    then have u: "\<bar>x\<bar> < 2 powi (- k + 1)" by (simp only: xy i2)
    from l u show ?thesis by (simp add: e)
  qed
  then show "2 powi (binade x) \<le> \<bar>x\<bar>" and "\<bar>x\<bar> < 2 powi (binade x + 1)" by simp_all
qed


lemma round_double_normal:
  assumes lo: "2 powi (- 1022) \<le> \<bar>x\<bar>" and hi: "\<bar>x\<bar> \<le> 2 powi 1023"
  shows "\<exists>r. round_double x = Some r \<and> \<bar>r - x\<bar> \<le> \<bar>x\<bar> / 2 ^ 53"
proof -
  have x0: "x \<noteq> 0" using lo by auto
  define e where "e = binade x"
  define q :: real where "q = 2 powi (e - 52)"
  define r where "r = of_int (round_half_even (x / q)) * q"
  have el: "2 powi e \<le> \<bar>x\<bar>" and eu: "\<bar>x\<bar> < 2 powi (e + 1)"
    unfolding e_def by (rule binade_bounds[OF x0])+
  have "- 1022 < e + 1"
  proof (rule ccontr)
    assume "\<not> - 1022 < e + 1"
    then have "e + 1 \<le> - 1022" by simp
    then have "(2::real) powi (e + 1) \<le> 2 powi (- 1022)"
      by (intro power_int_increasing) simp_all
    with lo eu show False by linarith
  qed
  then have emax: "max (binade x) (- 1022) = e" by (simp add: e_def)
  have qpos: "0 < q" by (simp add: q_def)
  have "r - x = (of_int (round_half_even (x / q)) - x / q) * q"
    using qpos by (simp add: r_def field_simps)
  then have "\<bar>r - x\<bar> = \<bar>of_int (round_half_even (x / q)) - x / q\<bar> * q"
    using qpos by (simp add: abs_mult)
  also have "\<dots> \<le> (1 / 2) * q"
    using round_half_even_error[of "x / q"] qpos by (intro mult_right_mono) simp_all
  also have "\<dots> = 2 powi e / 2 ^ 53"
  proof -
    have "(2::real) powi (e - 52) = 2 powi e * 2 powi (- 52)"
      by (simp add: power_int_diff power_int_minus field_simps)
    then show ?thesis by (simp add: q_def power_int_minus field_simps)
  qed
  also have "\<dots> \<le> \<bar>x\<bar> / 2 ^ 53" using el by (simp add: divide_right_mono)
  finally have err: "\<bar>r - x\<bar> \<le> \<bar>x\<bar> / 2 ^ 53" .
  have "\<bar>r\<bar> \<le> \<bar>x\<bar> + \<bar>r - x\<bar>" by linarith
  also have "\<dots> \<le> \<bar>x\<bar> + \<bar>x\<bar> / 2 ^ 53" using err by simp
  also have "\<dots> < 2 * \<bar>x\<bar>" using x0 by simp
  also have "\<dots> \<le> 2 * 2 powi 1023" using hi by simp
  also have "\<dots> = 2 powi 1024" by simp
  finally have "\<not> 2 powi 1024 \<le> \<bar>r\<bar>" by simp
  then have "round_double x = Some r"
    using x0 by (simp add: round_double_def Let_def emax q_def[symmetric] r_def[symmetric])
  with err show ?thesis by blast
qed

text \<open>Positive arguments between two powers of two: the result, its relative error, its range.\<close>

lemma round_double_pos:
  assumes "2 powi a \<le> x" and "x \<le> 2 powi b" and "- 1022 \<le> a" and "b \<le> 1023"
  shows "\<exists>r d. round_double x = Some r \<and> r = x * (1 + d) \<and> \<bar>d\<bar> \<le> 1 / 2 ^ 53
           \<and> 2 powi (a - 1) \<le> r \<and> r \<le> 2 powi (b + 1)"
proof -
  have xpos: "0 < x" using assms(1) by (rule less_le_trans[rotated]) simp
  have "(2::real) powi (- 1022) \<le> 2 powi a"
    using assms(3) by (intro power_int_increasing) simp_all
  then have lo: "2 powi (- 1022) \<le> \<bar>x\<bar>" using assms(1) xpos by simp
  have "(2::real) powi b \<le> 2 powi 1023" using assms(4) by (intro power_int_increasing) simp_all
  then have hi: "\<bar>x\<bar> \<le> 2 powi 1023" using assms(2) xpos by simp
  from round_double_normal[OF lo hi] obtain r
    where r: "round_double x = Some r" and err: "\<bar>r - x\<bar> \<le> x / 2 ^ 53"
    using xpos by auto
  define d where "d = (r - x) / x"
  have rd: "r = x * (1 + d)" using xpos by (simp add: d_def field_simps)
  have "\<bar>d\<bar> = \<bar>r - x\<bar> / x" using xpos by (simp add: d_def)
  also have "\<dots> \<le> (x / 2 ^ 53) / x" using err xpos by (simp add: divide_right_mono)
  also have "\<dots> = 1 / 2 ^ 53" using xpos by simp
  finally have db: "\<bar>d\<bar> \<le> 1 / 2 ^ 53" .
  have dsmall: "\<bar>d\<bar> \<le> 1 / 2" using db by (rule order_trans) simp
  have "x * (1 / 2) \<le> x * (1 + d)" using xpos dsmall by (intro mult_left_mono) (simp_all add: abs_le_iff)
  moreover have "2 powi (a - 1) = 2 powi a * (1 / 2 :: real)"
    by (simp add: power_int_diff)
  moreover have "2 powi a * (1 / 2 :: real) \<le> x * (1 / 2)" using assms(1) by simp
  ultimately have rl: "2 powi (a - 1) \<le> r" unfolding rd by linarith
  have "x * (1 + d) \<le> x * 2" using xpos dsmall by (intro mult_left_mono) (simp_all add: abs_le_iff)
  moreover have "2 powi (b + 1) = 2 powi b * (2 :: real)"
    by (simp add: power_int_add)
  moreover have "x * 2 \<le> 2 powi b * (2::real)" using assms(2) by simp
  ultimately have ru: "r \<le> 2 powi (b + 1)" unfolding rd by linarith
  from r rd db rl ru show ?thesis by blast
qed

lemma powi_mult_bounds:
  fixes x y :: real
  assumes "2 powi a \<le> x" "x \<le> 2 powi b" "2 powi c \<le> y" "y \<le> 2 powi d"
  shows "2 powi (a + c) \<le> x * y" and "x * y \<le> 2 powi (b + d)"
proof -
  have xp: "0 < x" using assms(1) by (rule less_le_trans[rotated]) simp
  have yp: "0 < y" using assms(3) by (rule less_le_trans[rotated]) simp
  have "2 powi a * 2 powi c \<le> x * y" using assms(1,3) xp yp by (intro mult_mono) simp_all
  then show "2 powi (a + c) \<le> x * y" by (simp add: power_int_add)
  have "x * y \<le> 2 powi b * 2 powi d" using assms(2,4) xp yp by (intro mult_mono) simp_all
  then show "x * y \<le> 2 powi (b + d)" by (simp add: power_int_add)
qed

lemma powi_div_bounds:
  fixes x y :: real
  assumes "2 powi a \<le> x" "x \<le> 2 powi b" "2 powi c \<le> y" "y \<le> 2 powi d"
  shows "2 powi (a - d) \<le> x / y" and "x / y \<le> 2 powi (b - c)"
proof -
  have yp: "0 < y" using assms(3) by (rule less_le_trans[rotated]) simp
  have "2 powi (- d) \<le> 1 / y"
    using assms(4) yp by (simp add: power_int_minus field_simps)
  moreover have "1 / y \<le> 2 powi (- c)"
    using assms(3) yp by (simp add: power_int_minus field_simps)
  ultimately have "2 powi (a + (- d)) \<le> x * (1 / y)" and "x * (1 / y) \<le> 2 powi (b + (- c))"
    using powi_mult_bounds[OF assms(1,2), of "- d" "1 / y" "- c"] by blast+
  then show "2 powi (a - d) \<le> x / y" and "x / y \<le> 2 powi (b - c)" by simp_all
qed

lemma two_factor_error:
  fixes a b :: real
  assumes "\<bar>a\<bar> \<le> \<alpha>" "\<bar>b\<bar> \<le> \<beta>"
  shows "\<bar>(1 + a) * (1 + b) - 1\<bar> \<le> \<alpha> + \<beta> + \<alpha> * \<beta>"
proof -
  have a0: "0 \<le> \<alpha>" using assms(1) by linarith
  have "\<bar>a * b\<bar> = \<bar>a\<bar> * \<bar>b\<bar>" by (rule abs_mult)
  also have "\<dots> \<le> \<alpha> * \<beta>" using assms a0 by (intro mult_mono) simp_all
  finally have ab: "\<bar>a * b\<bar> \<le> \<alpha> * \<beta>" .
  have "(1 + a) * (1 + b) - 1 = a + b + a * b" by (simp add: algebra_simps)
  with assms ab show ?thesis by linarith
qed

lemma step_error:
  fixes a b c u :: real
  assumes "\<bar>a\<bar> \<le> c * u" "\<bar>b\<bar> \<le> u" "u \<le> 1 / 8"
  shows "\<bar>(1 + a) * (1 + b) - 1\<bar> \<le> (c + 1 + c / 8) * u"
proof -
  have cu: "0 \<le> c * u" using assms(1) by linarith
  have "\<bar>(1 + a) * (1 + b) - 1\<bar> \<le> c * u + u + (c * u) * u"
    using assms(1,2) by (rule two_factor_error)
  moreover have "(c * u) * u \<le> (c * u) * (1 / 8)"
    using cu assms(3) by (rule mult_left_mono[rotated])
  moreover have "(c + 1 + c / 8) * u = c * u + u + (c * u) * (1 / 8)"
    by (simp add: algebra_simps)
  ultimately show ?thesis by linarith
qed

lemma four_factor_error:
  fixes d1 d2 d3 d4 u :: real
  assumes "\<bar>d1\<bar> \<le> u" "\<bar>d2\<bar> \<le> u" "\<bar>d3\<bar> \<le> u" "\<bar>d4\<bar> \<le> u" "u \<le> 1 / 8"
  shows "\<bar>(1 + d1) * (1 + d2) * (1 + d3) * (1 + d4) - 1\<bar> \<le> 5 * u"
proof -
  define e2 where "e2 = (1 + d1) * (1 + d2) - 1"
  define e3 where "e3 = (1 + e2) * (1 + d3) - 1"
  have u0: "0 \<le> u" using assms(1) by linarith
  have "\<bar>d1\<bar> \<le> 1 * u" using assms(1) by simp
  from step_error[OF this assms(2,5)] have b2: "\<bar>e2\<bar> \<le> (17 / 8) * u"
    by (simp add: e2_def)
  from step_error[OF b2 assms(3,5)] have b3: "\<bar>e3\<bar> \<le> (217 / 64) * u"
    by (simp add: e3_def)
  from step_error[OF b3 assms(4,5)] have "\<bar>(1 + e3) * (1 + d4) - 1\<bar> \<le> (2465 / 512) * u"
    by simp
  moreover have "1 + e3 = (1 + d1) * (1 + d2) * (1 + d3)" by (simp add: e3_def e2_def)
  ultimately show ?thesis using u0 by simp
qed

lemmas double_eval =
  double_mul_def double_div_def round_double_def binade_def round_half_even_def Let_def
  compute_bitlen

lemma roundtrip_core:
  fixes p sc rt :: real
  assumes p: "1 \<le> p" "p \<le> 2 ^ 50"
    and sc: "2 powi (- 100) \<le> sc" "sc \<le> 2 powi 100"
    and rt: "2 powi (- 100) \<le> rt" "rt \<le> 2 powi 100"
  shows "\<exists>a t c dd. double_mul p sc = Some a \<and> double_div a rt = Some t
           \<and> double_mul t rt = Some c \<and> double_div c sc = Some dd
           \<and> \<bar>dd - p\<bar> \<le> 5 * p / 2 ^ 53"
proof -
  have sc0: "0 < sc" using sc(1) by (rule less_le_trans[rotated]) simp
  have rt0: "0 < rt" using rt(1) by (rule less_le_trans[rotated]) simp
  have pp: "2 powi 0 \<le> p" "p \<le> 2 powi 50" using p by simp_all
  note x1 = powi_mult_bounds[OF pp sc]
  have "\<exists>r d. round_double (p * sc) = Some r \<and> r = p * sc * (1 + d) \<and> \<bar>d\<bar> \<le> 1 / 2 ^ 53
           \<and> 2 powi (0 + - 100 - 1) \<le> r \<and> r \<le> 2 powi (50 + 100 + 1)"
    by (rule round_double_pos[OF x1]) simp_all
  then obtain a d1
    where a: "round_double (p * sc) = Some a" "a = p * sc * (1 + d1)" "\<bar>d1\<bar> \<le> 1 / 2 ^ 53"
      and ab: "2 powi (0 + - 100 - 1) \<le> a" "a \<le> 2 powi (50 + 100 + 1)"
    by blast
  note x2 = powi_div_bounds[OF ab rt]
  have "\<exists>r d. round_double (a / rt) = Some r \<and> r = a / rt * (1 + d) \<and> \<bar>d\<bar> \<le> 1 / 2 ^ 53
           \<and> 2 powi (0 + - 100 - 1 - 100 - 1) \<le> r \<and> r \<le> 2 powi (50 + 100 + 1 - - 100 + 1)"
    by (rule round_double_pos[OF x2]) simp_all
  then obtain t d2
    where t: "round_double (a / rt) = Some t" "t = a / rt * (1 + d2)" "\<bar>d2\<bar> \<le> 1 / 2 ^ 53"
      and tb: "2 powi (0 + - 100 - 1 - 100 - 1) \<le> t" "t \<le> 2 powi (50 + 100 + 1 - - 100 + 1)"
    by blast
  note x3 = powi_mult_bounds[OF tb rt]
  have "\<exists>r d. round_double (t * rt) = Some r \<and> r = t * rt * (1 + d) \<and> \<bar>d\<bar> \<le> 1 / 2 ^ 53
           \<and> 2 powi (0 + - 100 - 1 - 100 - 1 + - 100 - 1) \<le> r \<and> r \<le> 2 powi (50 + 100 + 1 - - 100 + 1 + 100 + 1)"
    by (rule round_double_pos[OF x3]) simp_all
  then obtain c d3
    where c: "round_double (t * rt) = Some c" "c = t * rt * (1 + d3)" "\<bar>d3\<bar> \<le> 1 / 2 ^ 53"
      and cb: "2 powi (0 + - 100 - 1 - 100 - 1 + - 100 - 1) \<le> c"
              "c \<le> 2 powi (50 + 100 + 1 - - 100 + 1 + 100 + 1)"
    by blast
  note x4 = powi_div_bounds[OF cb sc]
  have "\<exists>r d. round_double (c / sc) = Some r \<and> r = c / sc * (1 + d) \<and> \<bar>d\<bar> \<le> 1 / 2 ^ 53
           \<and> 2 powi (0 + - 100 - 1 - 100 - 1 + - 100 - 1 - 100 - 1) \<le> r \<and> r \<le> 2 powi (50 + 100 + 1 - - 100 + 1 + 100 + 1 - - 100 + 1)"
    by (rule round_double_pos[OF x4]) simp_all
  then obtain dd d4
    where dd: "round_double (c / sc) = Some dd" "dd = c / sc * (1 + d4)" "\<bar>d4\<bar> \<le> 1 / 2 ^ 53"
    by blast
  have "dd = p * ((1 + d1) * (1 + d2) * (1 + d3) * (1 + d4))"
    using sc0 rt0 by (simp add: dd(2) c(2) t(2) a(2))
  then have "dd - p = p * ((1 + d1) * (1 + d2) * (1 + d3) * (1 + d4) - 1)"
    by (simp add: algebra_simps)
  then have "\<bar>dd - p\<bar> = p * \<bar>(1 + d1) * (1 + d2) * (1 + d3) * (1 + d4) - 1\<bar>"
    using p(1) by (simp add: abs_mult)
  also have "\<dots> \<le> p * (5 * (1 / 2 ^ 53))"
    using p(1) four_factor_error[OF a(3) t(3) c(3) dd(3)] by (intro mult_left_mono) simp_all
  finally have "\<bar>dd - p\<bar> \<le> 5 * p / 2 ^ 53" by simp
  with a(1) t(1) c(1) dd(1) sc0 rt0 show ?thesis
    by (simp add: double_mul_def double_div_def)
qed


lemma demo_hidden_data: "data demo_view_hidden = demo_data"
  by (simp add: demo_view_hidden_def WaveformOverview_def demo_container_hidden_def Let_def)

lemma roundtrip_zero:
  assumes "sc \<noteq> 0" "rt \<noteq> 0"
  shows "Option.bind (double_mul 0 sc) (\<lambda>x. double_div x rt) = Some 0"
    and "Option.bind (double_mul 0 rt) (\<lambda>x. Option.bind (double_div x sc) (\<lambda>y. Some \<lfloor>y\<rfloor>))
           = Some 0"
  using assms by (simp_all add: double_mul_def double_div_def round_double_def)

text \<open>
  C6, as stated, fails on the code: at 44100 Hz and 512 samples per pixel the pixel
  value \<open>3e16\<close> goes to the time 348299319727891.1875 and comes back as
  30000000000000004, four pixels off.
\<close>

theorem pixel_roundtrip_counterexample:
  "(0::real) \<le> 30000000000000000
   \<and> 0 < sample_rate (adapter (getWaveformData demo_view_hidden))
   \<and> 0 < scale (adapter (getWaveformData demo_view_hidden))
   \<and> pixelsToTime_double demo_view_hidden 30000000000000000
        = Some (5572789115646259 / 16)
   \<and> timeToPixels_double demo_view_hidden (5572789115646259 / 16) = Some 30000000000000004
   \<and> \<not> \<bar>real_of_int 30000000000000004 - 30000000000000000\<bar> \<le> 1"
  by (simp add: getWaveformData_def demo_hidden_data demo_data_def pixelsToTime_double_def
        timeToPixels_double_def double_eval)

text \<open>
  C6 (amended): in binary64 arithmetic, for a dataset whose sample rate and scale lie
  between \<open>2 ^ (-100)\<close> and \<open>2 ^ 100\<close>, both conversions return finite values and
  \<open>timeToPixels (pixelsToTime p)\<close> is \<open>p\<close> or \<open>p - 1\<close>, hence within 1 of \<open>p\<close>, for
  every integer pixel index \<open>p\<close> from 0 to \<open>2 ^ 50\<close>; for any other \<open>p\<close> between 1 and
  \<open>2 ^ 50\<close> it differs from \<open>p\<close> by less than \<open>1 + 5 * p / 2 ^ 53\<close>.
\<close>

theorem pixel_roundtrip_double:
  assumes "1 / 2 ^ 100 \<le> sample_rate (adapter (getWaveformData s))"
    and "sample_rate (adapter (getWaveformData s)) \<le> 2 ^ 100"
    and "1 / 2 ^ 100 \<le> scale (adapter (getWaveformData s))"
    and "scale (adapter (getWaveformData s)) \<le> 2 ^ 100"
  shows "(n \<le> 2 ^ 50 \<longrightarrow>
          (\<exists>t f. pixelsToTime_double s (real n) = Some t
               \<and> timeToPixels_double s t = Some f
               \<and> int n - 1 \<le> f \<and> f \<le> int n
               \<and> \<bar>real_of_int f - real n\<bar> \<le> 1))
       \<and> (1 \<le> p \<and> p \<le> 2 ^ 50 \<longrightarrow>
          (\<exists>t f. pixelsToTime_double s p = Some t
               \<and> timeToPixels_double s t = Some f
               \<and> \<bar>real_of_int f - p\<bar> < 1 + 5 * p / 2 ^ 53))"
proof -
  define rt where "rt = sample_rate (adapter (data s))"
  define sc where "sc = scale (adapter (data s))"
  have rt: "2 powi (- 100) \<le> rt" "rt \<le> 2 powi 100"
    using assms(1,2) by (simp_all add: rt_def getWaveformData_def power_int_minus inverse_eq_divide)
  have sc: "2 powi (- 100) \<le> sc" "sc \<le> 2 powi 100"
    using assms(3,4) by (simp_all add: sc_def getWaveformData_def power_int_minus inverse_eq_divide)
  have sc0: "sc \<noteq> 0" and rt0: "rt \<noteq> 0" using assms(1,3)
    by (auto simp: sc_def rt_def getWaveformData_def)
  have gen: "\<exists>t f. pixelsToTime_double s q = Some t \<and> timeToPixels_double s t = Some f
               \<and> real_of_int f \<le> q + 5 * q / 2 ^ 53
               \<and> q - 5 * q / 2 ^ 53 - 1 < real_of_int f"
    if q: "1 \<le> q" "q \<le> 2 ^ 50" for q
  proof -
    from roundtrip_core[OF q sc rt] obtain a t c dd
      where st: "double_mul q sc = Some a" "double_div a rt = Some t"
        "double_mul t rt = Some c" "double_div c sc = Some dd"
        and err: "\<bar>dd - q\<bar> \<le> 5 * q / 2 ^ 53"
      by blast
    have "pixelsToTime_double s q = Some t"
      using st by (simp add: pixelsToTime_double_def sc_def rt_def)
    moreover have "timeToPixels_double s t = Some \<lfloor>dd\<rfloor>"
      using st by (simp add: timeToPixels_double_def sc_def rt_def)
    moreover have "real_of_int \<lfloor>dd\<rfloor> \<le> q + 5 * q / 2 ^ 53"
      using err by linarith
    moreover have "q - 5 * q / 2 ^ 53 - 1 < real_of_int \<lfloor>dd\<rfloor>"
      using err by linarith
    ultimately show ?thesis by blast
  qed
  have int_case: "\<exists>t f. pixelsToTime_double s (real n) = Some t
               \<and> timeToPixels_double s t = Some f
               \<and> int n - 1 \<le> f \<and> f \<le> int n
               \<and> \<bar>real_of_int f - real n\<bar> \<le> 1"
    if n: "n \<le> 2 ^ 50"
  proof (cases "n = 0")
    case True
    have "pixelsToTime_double s (real n) = Some 0"
      using roundtrip_zero(1)[OF sc0 rt0] True
      by (simp add: pixelsToTime_double_def sc_def rt_def)
    moreover have "timeToPixels_double s 0 = Some 0"
      using roundtrip_zero(2)[OF sc0 rt0]
      by (simp add: timeToPixels_double_def sc_def rt_def)
    ultimately show ?thesis using True by simp
  next
    case False
    then have q: "1 \<le> real n" by simp
    have "real n \<le> real (2 ^ 50)" using n by (simp only: of_nat_le_iff)
    then have q2: "real n \<le> 2 ^ 50" by simp
    from gen[OF q q2] obtain t f
      where tf: "pixelsToTime_double s (real n) = Some t" "timeToPixels_double s t = Some f"
        and u: "real_of_int f \<le> real n + 5 * real n / 2 ^ 53"
        and l: "real n - 5 * real n / 2 ^ 53 - 1 < real_of_int f"
      by blast
    have small: "5 * real n / 2 ^ 53 \<le> 5 / 8" using q2 by simp
    have "real_of_int f < real_of_int (int n + 1)" using u small by simp
    then have "f < int n + 1" by (simp only: of_int_less_iff)
    then have fu: "f \<le> int n" by simp
    have "real_of_int (int n - 2) < real_of_int f" using l small by simp
    then have "int n - 2 < f" by (simp only: of_int_less_iff)
    then have fl: "int n - 1 \<le> f" by simp
    have "\<bar>real_of_int f - real n\<bar> \<le> 1"
    proof -
      have "real_of_int (int n - 1) \<le> real_of_int f" "real_of_int f \<le> real_of_int (int n)"
        using fl fu by (simp_all only: of_int_le_iff)
      then show ?thesis by simp
    qed
    with tf fl fu show ?thesis by blast
  qed
  have real_case: "\<exists>t f. pixelsToTime_double s p = Some t
               \<and> timeToPixels_double s t = Some f
               \<and> \<bar>real_of_int f - p\<bar> < 1 + 5 * p / 2 ^ 53"
    if q: "1 \<le> p" "p \<le> 2 ^ 50"
  proof -
    from gen[OF q] obtain t f
      where tf: "pixelsToTime_double s p = Some t" "timeToPixels_double s t = Some f"
        and u: "real_of_int f \<le> p + 5 * p / 2 ^ 53"
        and l: "p - 5 * p / 2 ^ 53 - 1 < real_of_int f"
      by blast
    have "0 \<le> 5 * p / 2 ^ 53" using q(1) by simp
    with u l have "\<bar>real_of_int f - p\<bar> < 1 + 5 * p / 2 ^ 53" by linarith
    with tf show ?thesis by blast
  qed
  from int_case real_case show ?thesis by blast
qed

theorem pixel_roundtrip_double_witness:
  "1 / 2 ^ 100 \<le> sample_rate (adapter (getWaveformData demo_view_hidden))
   \<and> sample_rate (adapter (getWaveformData demo_view_hidden)) \<le> 2 ^ 100
   \<and> 1 / 2 ^ 100 \<le> scale (adapter (getWaveformData demo_view_hidden))
   \<and> scale (adapter (getWaveformData demo_view_hidden)) \<le> 2 ^ 100
   \<and> (15::nat) \<le> 2 ^ 50
   \<and> (1::real) \<le> 3 / 2 \<and> (3 / 2 :: real) \<le> 2 ^ 50
   \<and> (\<exists>t f. pixelsToTime_double demo_view_hidden (real 15) = Some t
            \<and> timeToPixels_double demo_view_hidden t = Some f
            \<and> f = 14 \<and> \<bar>real_of_int f - real 15\<bar> \<le> 1)
   \<and> (\<exists>t f. pixelsToTime_double demo_view_hidden (3 / 2) = Some t
            \<and> timeToPixels_double demo_view_hidden t = Some f
            \<and> f = 1 \<and> \<bar>real_of_int f - 3 / 2\<bar> < 1 + 5 * (3 / 2) / 2 ^ 53)"
proof -
  have h: "1 / 2 ^ 100 \<le> sample_rate (adapter (getWaveformData demo_view_hidden))"
    "sample_rate (adapter (getWaveformData demo_view_hidden)) \<le> 2 ^ 100"
    "1 / 2 ^ 100 \<le> scale (adapter (getWaveformData demo_view_hidden))"
    "scale (adapter (getWaveformData demo_view_hidden)) \<le> 2 ^ 100"
    by (simp_all add: getWaveformData_def demo_hidden_data demo_data_def)
  have n: "(15::nat) \<le> 2 ^ 50" by simp
  have p: "(1::real) \<le> 3 / 2 \<and> (3 / 2 :: real) \<le> 2 ^ 50" by simp
  have e1: "pixelsToTime_double demo_view_hidden (real 15)
              = Some (6274402746159711 / 36028797018963968)"
    "timeToPixels_double demo_view_hidden (6274402746159711 / 36028797018963968) = Some 14"
    by (simp_all add: demo_hidden_data demo_data_def pixelsToTime_double_def
          timeToPixels_double_def double_eval)
  have e2: "pixelsToTime_double demo_view_hidden (3 / 2)
              = Some (5019522196927769 / 288230376151711744)"
    "timeToPixels_double demo_view_hidden (5019522196927769 / 288230376151711744) = Some 1"
    by (simp_all add: demo_hidden_data demo_data_def pixelsToTime_double_def
          timeToPixels_double_def double_eval)
  note w = pixel_roundtrip_double[OF h, of 15 "3 / 2"]
  from w n obtain t f
    where a: "pixelsToTime_double demo_view_hidden (real 15) = Some t"
      "timeToPixels_double demo_view_hidden t = Some f" "\<bar>real_of_int f - real 15\<bar> \<le> 1"
    by blast
  from a(1) e1(1) have "t = 6274402746159711 / 36028797018963968"
    by (simp only: option.inject)
  with a(2) e1(2) have a': "f = 14" by (simp only: option.inject)
  from w p obtain t' f'
    where b: "pixelsToTime_double demo_view_hidden (3 / 2) = Some t'"
      "timeToPixels_double demo_view_hidden t' = Some f'"
      "\<bar>real_of_int f' - 3 / 2\<bar> < 1 + 5 * (3 / 2) / 2 ^ 53"
    by blast
  from b(1) e2(1) have "t' = 5019522196927769 / 288230376151711744"
    by (simp only: option.inject)
  with b(2) e2(2) have b': "f' = 1" by (simp only: option.inject)
  from h n p a a' b b' show ?thesis by blast
qed



section \<open>Redraw after a resample\<close>

text \<open>
  C8: the redraw cascade makes these calls and no others, in this order: draw the
  waveform layer, read the player's current time, move the playhead to it, redraw the
  highlight layer exactly when a highlight region exists (after recomputing its
  position and width), update the point markers over the range from 0 to
  \<open>pixelsToTime width\<close>, update the segment markers over the same range. When the
  debounce timer fires on a live view, the cascade runs on the state that already holds
  the new width and the dataset resampled to it, so the drawing and the marker range
  use the new dataset.
\<close>

theorem full_redraw_cascade:
  "updateWaveform s =
     Done (s\<lparr>highlightRect :=
               map_option
                 (\<lambda>r. r\<lparr>rect_x := Some (timeToPixels s (highlightRectStartTime s)),
                        rect_width := timeToPixels s (highlightRectEndTime s)
                                      - timeToPixels s (highlightRectStartTime s)\<rparr>)
                 (highlightRect s),
             calls := calls s
               @ [WaveformLayer_draw, Player_getCurrentTime,
                  Playhead_updatePlayheadTime (player_currentTime s)]
               @ (if highlightRect s = None then [] else [HighlightLayer_draw])
               @ [Points_updatePoints 0 (pixelsToTime s (real (width s))),
                  Segments_updateSegments 0 (pixelsToTime s (real (width s)))]\<rparr>)
   \<and> (\<forall>st. stage s = Some st \<longrightarrow>
        (let w = clientWidth (container s);
             d = resample (originalWaveformData s) w;
             s' = state_of (resize_timeout_callback resample s)
         in resize_timeout_callback resample s =
              updateWaveform
                (s\<lparr>width := w, data := d, stage := Some (st\<lparr>stage_width := w\<rparr>),
                   calls := calls s @ [WaveformData_resample w, Stage_setWidth w]\<rparr>)
          \<and> \<not> throws (resize_timeout_callback resample s)
          \<and> getWaveformData s' = d
          \<and> getWidth s' = w
          \<and> calls s' = calls s
               @ [WaveformData_resample w, Stage_setWidth w,
                  WaveformLayer_draw, Player_getCurrentTime,
                  Playhead_updatePlayheadTime (player_currentTime s)]
               @ (if highlightRect s = None then [] else [HighlightLayer_draw])
               @ [Points_updatePoints 0 (pixelsToTime s' (real w)),
                  Segments_updateSegments 0 (pixelsToTime s' (real w))]))"
proof (intro conjI allI impI)
  show "updateWaveform s =
     Done (s\<lparr>highlightRect :=
               map_option
                 (\<lambda>r. r\<lparr>rect_x := Some (timeToPixels s (highlightRectStartTime s)),
                        rect_width := timeToPixels s (highlightRectEndTime s)
                                      - timeToPixels s (highlightRectStartTime s)\<rparr>)
                 (highlightRect s),
             calls := calls s
               @ [WaveformLayer_draw, Player_getCurrentTime,
                  Playhead_updatePlayheadTime (player_currentTime s)]
               @ (if highlightRect s = None then [] else [HighlightLayer_draw])
               @ [Points_updatePoints 0 (pixelsToTime s (real (width s))),
                  Segments_updateSegments 0 (pixelsToTime s (real (width s)))]\<rparr>)"
    by (rule updateWaveform_eq)
next
  fix st assume st: "stage s = Some st"
  show "let w = clientWidth (container s);
             d = resample (originalWaveformData s) w;
             s' = state_of (resize_timeout_callback resample s)
         in resize_timeout_callback resample s =
              updateWaveform
                (s\<lparr>width := w, data := d, stage := Some (st\<lparr>stage_width := w\<rparr>),
                   calls := calls s @ [WaveformData_resample w, Stage_setWidth w]\<rparr>)
          \<and> \<not> throws (resize_timeout_callback resample s)
          \<and> getWaveformData s' = d
          \<and> getWidth s' = w
          \<and> calls s' = calls s
               @ [WaveformData_resample w, Stage_setWidth w,
                  WaveformLayer_draw, Player_getCurrentTime,
                  Playhead_updatePlayheadTime (player_currentTime s)]
               @ (if highlightRect s = None then [] else [HighlightLayer_draw])
               @ [Points_updatePoints 0 (pixelsToTime s' (real w)),
                  Segments_updateSegments 0 (pixelsToTime s' (real w))]"
    unfolding Let_def
    by (simp add: callback_eq[OF st] updateWaveform_eq getWaveformData_def getWidth_def
          pixelsToTime_def)
qed

theorem full_redraw_cascade_witness:
  "stage demo_pending = Some \<lparr>stage_width = 800, stage_height = 200\<rparr>
   \<and> \<not> throws (resize_timeout_callback demo_resample demo_pending)
   \<and> getWaveformData (state_of (resize_timeout_callback demo_resample demo_pending))
       = demo_resample demo_data 800
   \<and> calls (state_of (resize_timeout_callback demo_resample demo_pending))
       = calls demo_pending
         @ [WaveformData_resample 800, Stage_setWidth 800, WaveformLayer_draw,
            Player_getCurrentTime, Playhead_updatePlayheadTime 0,
            Points_updatePoints 0 (2645600 / 44100),
            Segments_updateSegments 0 (2645600 / 44100)]"
proof -
  have st: "stage demo_pending = Some \<lparr>stage_width = 800, stage_height = 200\<rparr>"
    by (simp add: demo_pending_eq demo_view_eq)
  have f: "clientWidth (container demo_pending) = 800"
    "originalWaveformData demo_pending = demo_data"
    "player_currentTime demo_pending = 0"
    "highlightRect demo_pending = None"
    by (simp_all add: demo_pending_eq demo_view_eq)
  note c = full_redraw_cascade[of demo_pending demo_resample, THEN conjunct2, rule_format,
      OF st, unfolded Let_def f, THEN conjunct2]
  from c have d: "getWaveformData (state_of (resize_timeout_callback demo_resample demo_pending))
          = demo_resample demo_data 800"
    by blast
  then have "pixelsToTime (state_of (resize_timeout_callback demo_resample demo_pending)) 800
          = 2645600 / 44100"
    by (simp add: pixelsToTime_def getWaveformData_def demo_resample_def demo_data_def)
  with c st show ?thesis by simp
qed

section \<open>Teardown\<close>

text \<open>
  C9: teardown throws nothing and leaves no pending timer in a tracked state; a second
  teardown throws nothing and changes no part of the state.
\<close>

theorem destroy_idempotent:
  "\<not> throws (destroy s)
   \<and> (tracked s \<longrightarrow> timers (state_of (destroy s)) = [])
   \<and> stage (state_of (destroy s)) = None
   \<and> \<not> throws (destroy (state_of (destroy s)))
   \<and> state_of (destroy (state_of (destroy s))) = state_of (destroy s)"
proof -
  have t: "tracked s \<Longrightarrow> timers (state_of (destroy s)) = []"
    using clearResizeTimeout_tracked[of s]
    by (simp add: destroy_def call_def Let_def split: option.splits)
  have nothrow: "\<not> throws (destroy s)"
    by (simp add: destroy_def Let_def split: option.splits)
  have id: "resizeTimeoutId (state_of (destroy s)) = None
            \<or> resizeTimeoutId (state_of (destroy s)) = Some 0"
    using clearResizeTimeout_id[of s]
    by (simp add: destroy_def call_def Let_def split: option.splits)
  have sn: "stage (state_of (destroy s)) = None"
    by (simp add: destroy_def call_def Let_def split: option.splits)
  have "destroy (state_of (destroy s)) = Done (state_of (destroy s))"
    using clearResizeTimeout_falsy[OF id] sn
    by (simp add: destroy_def[of "state_of (destroy s)"] Let_def)
  with t nothrow sn show ?thesis by simp
qed

theorem destroy_idempotent_witness:
  "tracked demo_pending
   \<and> timers demo_pending = [(1, 500)]
   \<and> \<not> throws (destroy demo_pending)
   \<and> timers (state_of (destroy demo_pending)) = []
   \<and> state_of (destroy (state_of (destroy demo_pending))) = state_of (destroy demo_pending)"
proof -
  have "timers demo_pending = [(1, 500)]" by (simp add: demo_pending_eq)
  then show ?thesis
    using destroy_idempotent[of demo_pending] tracked_demo_pending by simp
qed

section \<open>Construction\<close>

text \<open>
  C10: when the container reports width zero at construction, no resample call is made
  and \<open>getWaveformData\<close> returns the original dataset; otherwise there is exactly one
  resample call, at the container width, and \<open>getWaveformData\<close> returns its result.
\<close>

theorem construction_dataset:
  "(clientWidth c = 0 \<longrightarrow>
       getWaveformData (WaveformOverview resample d c opts t) = d
     \<and> resamples (calls (WaveformOverview resample d c opts t)) = [])
   \<and> (clientWidth c \<noteq> 0 \<longrightarrow>
       getWaveformData (WaveformOverview resample d c opts t) = resample d (clientWidth c)
     \<and> resamples (calls (WaveformOverview resample d c opts t)) = [clientWidth c])"
  by (simp add: WaveformOverview_def getWaveformData_def Let_def)

theorem construction_dataset_witness:
  "clientWidth demo_container_hidden = 0
   \<and> getWaveformData demo_view_hidden = demo_data
   \<and> resamples (calls demo_view_hidden) = []
   \<and> clientWidth demo_container \<noteq> 0
   \<and> getWaveformData demo_view = demo_resample demo_data 1000
   \<and> resamples (calls demo_view) = [1000]"
proof -
  have z: "clientWidth demo_container_hidden = 0" by (simp add: demo_container_hidden_def)
  have n: "clientWidth demo_container = 1000" by (simp add: demo_container_def)
  show ?thesis
    using construction_dataset[of demo_container_hidden demo_resample demo_data demo_options 0]
      construction_dataset[of demo_container demo_resample demo_data demo_options 0] z n
    by (simp add: demo_view_def demo_view_hidden_def)
qed

end
